theory Spec2Isabelle
  imports Complex_Main
begin

section \<open>Stochastic models of GnssBox (lib/gnss/StochasticModel.hpp)\<close>

text \<open>
  The header declares a base class \<^verbatim>\<open>StochasticModel\<close> with three virtual methods
  (\<^verbatim>\<open>getPhi\<close>, \<^verbatim>\<open>getQ\<close>, \<^verbatim>\<open>Prepare\<close>) and ten derived classes. Every class is a
  record of its data members; every method is a function that takes the object and
  returns the updated object (and the returned value, where there is one).

  Numbers: a C++ \<^verbatim>\<open>double\<close> is idealised as a real number, so \<^verbatim>\<open>sigma*sigma\<close> is the
  exact square and a literal such as \<^verbatim>\<open>5.0e-8\<close> is the exact rational. Rounding,
  infinities and NaN are outside the model.
\<close>

type_synonym double = real

subsection \<open>External collaborators\<close>

text \<open>
  Modelled from the spec: the class \<^verbatim>\<open>CommonTime\<close> (CommonTime.hpp is not part of the
  sources). The spec asks for a totally ordered time stamp whose difference is the
  elapsed time in seconds as a double, with a fixed sentinel that is earlier than any
  real epoch. An epoch is the number of seconds since the sentinel.
\<close>

type_synonym CommonTime = real

definition BEGINNING_OF_TIME :: CommonTime where
  "BEGINNING_OF_TIME = 0"

text \<open>
  Modelled from the spec: \<^verbatim>\<open>SourceID\<close>, \<^verbatim>\<open>SatID\<close>, \<^verbatim>\<open>TypeID\<close> and the two containers
  of DataStructures.hpp (not part of the sources): opaque identities with equality, the
  data-field identifiers the header names (\<^verbatim>\<open>TypeID::CSFlag\<close>, \<^verbatim>\<open>TypeID::satArc\<close>) among
  others, and read-only maps from identifiers to numbers.
\<close>

datatype SourceID = SourceID nat

datatype SatID = SatID nat

datatype TypeID = CSFlag | satArc | OtherType nat

type_synonym typeValueMap = "TypeID \<rightharpoonup> double"

type_synonym satTypeValueMap = "SatID \<rightharpoonup> typeValueMap"

subsection \<open>class StochasticModel\<close>

text \<open>
  The base class has no data members. Its three method bodies are inherited by every
  derived class that does not override them, so they are written once, for an object of
  any class: \<^verbatim>\<open>return 1.0\<close>, \<^verbatim>\<open>return 0.0\<close> and \<^verbatim>\<open>return\<close> change nothing.
\<close>

definition StochasticModel_getPhi :: "'obj \<Rightarrow> double \<times> 'obj" where
  "StochasticModel_getPhi m = (1, m)"

definition StochasticModel_getQ :: "'obj \<Rightarrow> double \<times> 'obj" where
  "StochasticModel_getQ m = (0, m)"

definition StochasticModel_Prepare ::
  "'obj \<Rightarrow> CommonTime \<Rightarrow> SourceID \<Rightarrow> SatID \<Rightarrow> typeValueMap \<Rightarrow> 'obj" where
  "StochasticModel_Prepare m time source sat tData = m"

subsection \<open>class WhiteNoiseModel\<close>

record WhiteNoiseModel =
  wn_variance :: double

text \<open>\<^verbatim>\<open>WhiteNoiseModel(double sigma = 300000.0) : variance(sigma*sigma)\<close>\<close>

definition WhiteNoiseModel_init :: "double \<Rightarrow> WhiteNoiseModel" where
  "WhiteNoiseModel_init sigma = \<lparr> wn_variance = sigma * sigma \<rparr>"

definition WhiteNoiseModel_default :: WhiteNoiseModel where
  "WhiteNoiseModel_default = WhiteNoiseModel_init 300000"

definition WhiteNoiseModel_setSigma :: "WhiteNoiseModel \<Rightarrow> double \<Rightarrow> WhiteNoiseModel" where
  "WhiteNoiseModel_setSigma m sigma = m\<lparr> wn_variance := sigma * sigma \<rparr>"

definition WhiteNoiseModel_getPhi :: "WhiteNoiseModel \<Rightarrow> double \<times> WhiteNoiseModel" where
  "WhiteNoiseModel_getPhi m = (0, m)"

definition WhiteNoiseModel_getQ :: "WhiteNoiseModel \<Rightarrow> double \<times> WhiteNoiseModel" where
  "WhiteNoiseModel_getQ m = (wn_variance m, m)"

text \<open>\<^verbatim>\<open>Prepare\<close> is not overridden: the inherited body \<^verbatim>\<open>{ return; }\<close> runs.\<close>

definition WhiteNoiseModel_Prepare ::
  "WhiteNoiseModel \<Rightarrow> CommonTime \<Rightarrow> SourceID \<Rightarrow> SatID \<Rightarrow> typeValueMap \<Rightarrow> WhiteNoiseModel" where
  "WhiteNoiseModel_Prepare m time source sat tData = StochasticModel_Prepare m time source sat tData"

text \<open>A history of \<^verbatim>\<open>Prepare\<close> calls, each with its own arguments.\<close>

type_synonym PrepareArgs = "CommonTime \<times> SourceID \<times> SatID \<times> typeValueMap"

fun WhiteNoiseModel_Prepares :: "WhiteNoiseModel \<Rightarrow> PrepareArgs list \<Rightarrow> WhiteNoiseModel" where
  "WhiteNoiseModel_Prepares m [] = m"
| "WhiteNoiseModel_Prepares m ((time, source, sat, tData) # calls) =
     WhiteNoiseModel_Prepares (WhiteNoiseModel_Prepare m time source sat tData) calls"

subsection \<open>class RandomWalkModel\<close>

record RandomWalkModel =
  rw_qprime :: double
  rw_previousTime :: CommonTime
  rw_currentTime :: CommonTime

text \<open>The default constructor: a very high \<^verbatim>\<open>qprime\<close>, both epochs the sentinel.\<close>

definition RandomWalkModel_default :: RandomWalkModel where
  "RandomWalkModel_default =
     \<lparr> rw_qprime = 90000000000,
       rw_previousTime = BEGINNING_OF_TIME,
       rw_currentTime = BEGINNING_OF_TIME \<rparr>"

text \<open>
  The common constructor \<^verbatim>\<open>RandomWalkModel(qp, prevTime, currentTime)\<close>, whose initialiser
  list is \<^verbatim>\<open>qprime(qp), previousTime(prevTime), currentTime(prevTime)\<close>.
\<close>

definition RandomWalkModel_init :: "double \<Rightarrow> CommonTime \<Rightarrow> CommonTime \<Rightarrow> RandomWalkModel" where
  "RandomWalkModel_init qp prevTime currentTime =
     \<lparr> rw_qprime = qp, rw_previousTime = prevTime, rw_currentTime = prevTime \<rparr>"

definition RandomWalkModel_setPreviousTime :: "RandomWalkModel \<Rightarrow> CommonTime \<Rightarrow> RandomWalkModel" where
  "RandomWalkModel_setPreviousTime m prevTime = m\<lparr> rw_previousTime := prevTime \<rparr>"

definition RandomWalkModel_setCurrentTime :: "RandomWalkModel \<Rightarrow> CommonTime \<Rightarrow> RandomWalkModel" where
  "RandomWalkModel_setCurrentTime m currTime = m\<lparr> rw_currentTime := currTime \<rparr>"

definition RandomWalkModel_setQprime :: "RandomWalkModel \<Rightarrow> double \<Rightarrow> RandomWalkModel" where
  "RandomWalkModel_setQprime m qp = m\<lparr> rw_qprime := qp \<rparr>"

text \<open>\<^verbatim>\<open>getPhi\<close> is not overridden: the base class's \<^verbatim>\<open>return 1.0\<close> runs.\<close>

definition RandomWalkModel_getPhi :: "RandomWalkModel \<Rightarrow> double \<times> RandomWalkModel" where
  "RandomWalkModel_getPhi m = StochasticModel_getPhi m"

text \<open>
  Modelled from the spec: \<^verbatim>\<open>RandomWalkModel::getQ\<close> and \<^verbatim>\<open>RandomWalkModel::Prepare\<close>,
  which the header only declares (their bodies are in a file that is not part of the
  sources). The spec: \<^verbatim>\<open>Prepare\<close> sets \<^verbatim>\<open>currentTime = epoch\<close>; the noise is
  \<^verbatim>\<open>Q = qprime * (currentTime - previousTime)\<close> in seconds, also when \<^verbatim>\<open>previousTime\<close>
  is still the sentinel (the interval is then very long and so is Q); the record advances
  on every \<^verbatim>\<open>Prepare\<close> call (\<^verbatim>\<open>previousTime <- currentTime\<close>); \<^verbatim>\<open>getQ\<close> reads and changes
  nothing. The class has the three members above and none that could hold a computed Q,
  so \<^verbatim>\<open>getQ\<close> evaluates the product from the stored pair of epochs, and \<^verbatim>\<open>Prepare\<close>
  advances the pair: the epoch of the previous call becomes \<^verbatim>\<open>previousTime\<close>.
\<close>

definition RandomWalkModel_getQ :: "RandomWalkModel \<Rightarrow> double \<times> RandomWalkModel" where
  "RandomWalkModel_getQ m = (rw_qprime m * (rw_currentTime m - rw_previousTime m), m)"

definition RandomWalkModel_Prepare ::
  "RandomWalkModel \<Rightarrow> CommonTime \<Rightarrow> SourceID \<Rightarrow> SatID \<Rightarrow> typeValueMap \<Rightarrow> RandomWalkModel" where
  "RandomWalkModel_Prepare m epoch source sat tData =
     RandomWalkModel_setCurrentTime (RandomWalkModel_setPreviousTime m (rw_currentTime m)) epoch"

subsection \<open>class PhaseAmbiguityModel\<close>

record PhaseAmbiguityModel =
  pa_variance :: double
  cycleSlip :: bool
  watchSatArc :: bool
  csFlagType :: TypeID
  satArcMap :: "SourceID \<rightharpoonup> (SatID \<rightharpoonup> double)"

text \<open>
  \<^verbatim>\<open>PhaseAmbiguityModel(double sigma = 2.0E4)\<close>; the map member is default-constructed,
  that is, empty.
\<close>

definition PhaseAmbiguityModel_init :: "double \<Rightarrow> PhaseAmbiguityModel" where
  "PhaseAmbiguityModel_init sigma =
     \<lparr> pa_variance = sigma * sigma,
       cycleSlip = False,
       watchSatArc = True,
       csFlagType = CSFlag,
       satArcMap = Map.empty \<rparr>"

definition PhaseAmbiguityModel_default :: PhaseAmbiguityModel where
  "PhaseAmbiguityModel_default = PhaseAmbiguityModel_init 20000"

definition PhaseAmbiguityModel_setCSFlagType :: "PhaseAmbiguityModel \<Rightarrow> TypeID \<Rightarrow> PhaseAmbiguityModel" where
  "PhaseAmbiguityModel_setCSFlagType m type = m\<lparr> csFlagType := type \<rparr>"

definition PhaseAmbiguityModel_getCSFlagType :: "PhaseAmbiguityModel \<Rightarrow> TypeID \<times> PhaseAmbiguityModel" where
  "PhaseAmbiguityModel_getCSFlagType m = (csFlagType m, m)"

definition PhaseAmbiguityModel_setSigma :: "PhaseAmbiguityModel \<Rightarrow> double \<Rightarrow> PhaseAmbiguityModel" where
  "PhaseAmbiguityModel_setSigma m sigma = m\<lparr> pa_variance := sigma * sigma \<rparr>"

definition PhaseAmbiguityModel_setCS :: "PhaseAmbiguityModel \<Rightarrow> bool \<Rightarrow> PhaseAmbiguityModel" where
  "PhaseAmbiguityModel_setCS m cs = m\<lparr> cycleSlip := cs \<rparr>"

definition PhaseAmbiguityModel_getCS :: "PhaseAmbiguityModel \<Rightarrow> bool \<times> PhaseAmbiguityModel" where
  "PhaseAmbiguityModel_getCS m = (cycleSlip m, m)"

definition PhaseAmbiguityModel_setWatchSatArc :: "PhaseAmbiguityModel \<Rightarrow> bool \<Rightarrow> PhaseAmbiguityModel" where
  "PhaseAmbiguityModel_setWatchSatArc m watchArc = m\<lparr> watchSatArc := watchArc \<rparr>"

text \<open>
  Modelled from the spec: \<^verbatim>\<open>PhaseAmbiguityModel::getPhi\<close> and
  \<^verbatim>\<open>PhaseAmbiguityModel::getQ\<close>, declared in the header and defined out of line.
  The spec: \<^verbatim>\<open>getPhi\<close> returns 0.0 if \<^verbatim>\<open>cycleSlip\<close> is currently true, else 1.0;
  \<^verbatim>\<open>getQ\<close> returns \<^verbatim>\<open>variance\<close> if \<^verbatim>\<open>cycleSlip\<close> is true, else 0.0.
\<close>

definition PhaseAmbiguityModel_getPhi :: "PhaseAmbiguityModel \<Rightarrow> double \<times> PhaseAmbiguityModel" where
  "PhaseAmbiguityModel_getPhi m = (if cycleSlip m then 0 else 1, m)"

definition PhaseAmbiguityModel_getQ :: "PhaseAmbiguityModel \<Rightarrow> double \<times> PhaseAmbiguityModel" where
  "PhaseAmbiguityModel_getQ m = (if cycleSlip m then pa_variance m else 0, m)"

text \<open>
  The value of a data field of one satellite, \<^verbatim>\<open>None\<close> when the satellite or the field
  is not in the container.
\<close>

definition fieldOf :: "satTypeValueMap \<Rightarrow> SatID \<Rightarrow> TypeID \<Rightarrow> double option" where
  "fieldOf data sat type = (case data sat of None \<Rightarrow> None | Some tvm \<Rightarrow> tvm type)"

text \<open>The arc value cached for a (source, satellite) key, and the map with one stored.\<close>

definition cachedArc :: "PhaseAmbiguityModel \<Rightarrow> SourceID \<Rightarrow> SatID \<Rightarrow> double option" where
  "cachedArc m source sat = (case satArcMap m source of None \<Rightarrow> None | Some arcs \<Rightarrow> arcs sat)"

definition storeArc ::
  "(SourceID \<rightharpoonup> (SatID \<rightharpoonup> double)) \<Rightarrow> SourceID \<Rightarrow> SatID \<Rightarrow> double
     \<Rightarrow> (SourceID \<rightharpoonup> (SatID \<rightharpoonup> double))" where
  "storeArc arcMap source sat arc =
     arcMap(source \<mapsto> (case arcMap source of None \<Rightarrow> Map.empty | Some arcs \<Rightarrow> arcs)(sat \<mapsto> arc))"

text \<open>
  Modelled from the spec: \<^verbatim>\<open>PhaseAmbiguityModel::checkCS\<close>, declared in the header and
  defined out of line. The spec: two detection policies selected by \<^verbatim>\<open>watchSatArc\<close>.
  Flag mode (\<^verbatim>\<open>watchSatArc = false\<close>): read the data field identified by
  \<^verbatim>\<open>csFlagType\<close>; nonzero means slip. Arc mode (\<^verbatim>\<open>watchSatArc = true\<close>): read the
  satellite-arc counter for this (source, satellite); compare it with the last value
  cached for that key; a change means slip, and the cache is updated to the new value
  regardless; the first observation of a key establishes the baseline with no slip.
  If the expected data field is absent, there is no slip.
\<close>

definition PhaseAmbiguityModel_checkCS ::
  "PhaseAmbiguityModel \<Rightarrow> SourceID \<Rightarrow> SatID \<Rightarrow> satTypeValueMap \<Rightarrow> PhaseAmbiguityModel" where
  "PhaseAmbiguityModel_checkCS m source sat data =
     (if \<not> watchSatArc m then
        (case fieldOf data sat (csFlagType m) of
           None \<Rightarrow> PhaseAmbiguityModel_setCS m False
         | Some flag \<Rightarrow> PhaseAmbiguityModel_setCS m (flag \<noteq> 0))
      else
        (case fieldOf data sat satArc of
           None \<Rightarrow> PhaseAmbiguityModel_setCS m False
         | Some arc \<Rightarrow>
             (let slip = (case cachedArc m source sat of None \<Rightarrow> False | Some old \<Rightarrow> arc \<noteq> old)
              in PhaseAmbiguityModel_setCS
                   (m\<lparr> satArcMap := storeArc (satArcMap m) source sat arc \<rparr>) slip)))"

text \<open>
  \<^verbatim>\<open>Prepare\<close> is inline in the header: it wraps the satellite's data in a one-entry
  \<^verbatim>\<open>satTypeValueMap\<close> and calls \<^verbatim>\<open>checkCS\<close>.
\<close>

definition PhaseAmbiguityModel_Prepare ::
  "PhaseAmbiguityModel \<Rightarrow> CommonTime \<Rightarrow> SourceID \<Rightarrow> SatID \<Rightarrow> typeValueMap \<Rightarrow> PhaseAmbiguityModel" where
  "PhaseAmbiguityModel_Prepare m epoch source sat tData =
     PhaseAmbiguityModel_checkCS m source sat (Map.empty(sat \<mapsto> tData))"

subsection \<open>The per-entity random-walk classes\<close>

text \<open>
  Each of the seven classes nests a structure of two epochs (\<^verbatim>\<open>tropModelData\<close>,
  \<^verbatim>\<open>tropGradModelData\<close>, \<^verbatim>\<open>ionoModelData\<close>, \<^verbatim>\<open>recBiasModelData\<close>,
  \<^verbatim>\<open>satBiasModelData\<close>, \<^verbatim>\<open>ISBData\<close>, \<^verbatim>\<open>IFCBData\<close>), all with the same members and the
  same default constructor, which sets \<^verbatim>\<open>previousTime\<close> to the sentinel. \<^verbatim>\<open>currentTime\<close>
  is left to the default constructor of \<^verbatim>\<open>CommonTime\<close>, which is outside the sources; it
  is taken to be the sentinel too, as \<^verbatim>\<open>RandomWalkModel\<close>'s default constructor has it.
\<close>

record modelData =
  previousTime :: CommonTime
  currentTime :: CommonTime

definition modelData_init :: modelData where
  "modelData_init = \<lparr> previousTime = BEGINNING_OF_TIME, currentTime = BEGINNING_OF_TIME \<rparr>"

text \<open>
  \<^verbatim>\<open>std::map::operator[]\<close>: the stored element, or a default-constructed one where the
  key is new (the caller stores the element back, so the new key stays in the map).
\<close>

definition at_or_new :: "('k \<rightharpoonup> modelData) \<Rightarrow> 'k \<Rightarrow> modelData" where
  "at_or_new mp k = (case mp k of None \<Rightarrow> modelData_init | Some d \<Rightarrow> d)"

definition inner_or_new :: "('k \<rightharpoonup> ('j \<rightharpoonup> modelData)) \<Rightarrow> 'k \<Rightarrow> ('j \<rightharpoonup> modelData)" where
  "inner_or_new mp k = (case mp k of None \<Rightarrow> Map.empty | Some inner \<Rightarrow> inner)"

text \<open>
  Modelled from the spec: the body that the seven \<^verbatim>\<open>computeQ\<close> methods share; the header
  declares them and the file that defines them is not part of the sources. The spec, on
  the record of the entity, whose \<^verbatim>\<open>currentTime\<close> \<^verbatim>\<open>Prepare\<close> has set to the epoch:
  if \<^verbatim>\<open>previousTime\<close> is unset, seed \<^verbatim>\<open>previousTime = currentTime\<close> (a zero elapsed
  time); \<^verbatim>\<open>Q = qprime * (currentTime - previousTime)\<close>, clamped to at least 0; then
  advance \<^verbatim>\<open>previousTime <- currentTime\<close>. The result is the new variance and the
  advanced record.
\<close>

definition elapsedVariance :: "double \<Rightarrow> modelData \<Rightarrow> double \<times> modelData" where
  "elapsedVariance qp d =
     (let seeded = (if previousTime d = BEGINNING_OF_TIME
                    then d\<lparr> previousTime := currentTime d \<rparr> else d);
          q = max 0 (qp * (currentTime seeded - previousTime seeded))
      in (q, seeded\<lparr> previousTime := currentTime seeded \<rparr>))"

text \<open>
  In every class below, the constructor initialises \<^verbatim>\<open>qprime\<close> only: the member
  \<^verbatim>\<open>variance\<close> starts with an indeterminate value, which the constructor of the model
  takes as its argument \<open>v0\<close>. \<^verbatim>\<open>getPhi\<close> is inherited from the base class,
  \<^verbatim>\<open>getQ\<close> returns \<^verbatim>\<open>variance\<close>, and the per-entity overload of \<^verbatim>\<open>setQprime\<close> has the body
  \<^verbatim>\<open>qprime = qp\<close>. The overload \<^verbatim>\<open>setQprime(double)\<close> is only declared and is not
  modelled. \<^verbatim>\<open>Prepare\<close> and \<^verbatim>\<open>computeQ\<close> are modelled from the spec:
  \<^verbatim>\<open>Prepare\<close> looks up or creates the record of the entity, sets its \<^verbatim>\<open>currentTime\<close>
  to the epoch and calls \<^verbatim>\<open>computeQ\<close>.
\<close>

subsubsection \<open>class TropoRandomWalkModel\<close>

record TropoRandomWalkModel =
  tropo_qprime :: double
  tmData :: "SourceID \<rightharpoonup> modelData"
  tropo_variance :: double

definition TropoRandomWalkModel_init :: "double \<Rightarrow> TropoRandomWalkModel" where
  "TropoRandomWalkModel_init v0 = \<lparr> tropo_qprime = 5 / 10 ^ 8, tmData = Map.empty, tropo_variance = v0 \<rparr>"

definition TropoRandomWalkModel_setPreviousTime :: "TropoRandomWalkModel \<Rightarrow> SourceID \<Rightarrow> CommonTime \<Rightarrow> TropoRandomWalkModel" where
  "TropoRandomWalkModel_setPreviousTime m source prevTime =
     m\<lparr> tmData := (tmData m)(source \<mapsto> (at_or_new (tmData m) source)\<lparr> previousTime := prevTime \<rparr>) \<rparr>"

definition TropoRandomWalkModel_setCurrentTime :: "TropoRandomWalkModel \<Rightarrow> SourceID \<Rightarrow> CommonTime \<Rightarrow> TropoRandomWalkModel" where
  "TropoRandomWalkModel_setCurrentTime m source currTime =
     m\<lparr> tmData := (tmData m)(source \<mapsto> (at_or_new (tmData m) source)\<lparr> currentTime := currTime \<rparr>) \<rparr>"

definition TropoRandomWalkModel_setQprime_source :: "TropoRandomWalkModel \<Rightarrow> SourceID \<Rightarrow> double \<Rightarrow> TropoRandomWalkModel" where
  "TropoRandomWalkModel_setQprime_source m source qp = m\<lparr> tropo_qprime := qp \<rparr>"

definition TropoRandomWalkModel_getQ :: "TropoRandomWalkModel \<Rightarrow> double \<times> TropoRandomWalkModel" where
  "TropoRandomWalkModel_getQ m = (tropo_variance m, m)"

text \<open>Modelled from the spec: \<^verbatim>\<open>TropoRandomWalkModel::computeQ\<close> and \<^verbatim>\<open>TropoRandomWalkModel::Prepare\<close>.\<close>

definition TropoRandomWalkModel_computeQ :: "TropoRandomWalkModel \<Rightarrow> SatID \<Rightarrow> typeValueMap \<Rightarrow> SourceID \<Rightarrow> TropoRandomWalkModel" where
  "TropoRandomWalkModel_computeQ m sat data source =
     (case elapsedVariance (tropo_qprime m) (at_or_new (tmData m) source) of
        (q, d) \<Rightarrow> m\<lparr> tmData := (tmData m)(source \<mapsto> d), tropo_variance := q \<rparr>)"

definition TropoRandomWalkModel_Prepare ::
  "TropoRandomWalkModel \<Rightarrow> CommonTime \<Rightarrow> SourceID \<Rightarrow> SatID \<Rightarrow> typeValueMap \<Rightarrow> TropoRandomWalkModel" where
  "TropoRandomWalkModel_Prepare m epoch source sat tData =
     TropoRandomWalkModel_computeQ (TropoRandomWalkModel_setCurrentTime m source epoch) sat tData source"

subsubsection \<open>class TropoGradRandomWalkModel\<close>

record TropoGradRandomWalkModel =
  grad_qprime :: double
  gmData :: "SourceID \<rightharpoonup> modelData"
  grad_variance :: double

definition TropoGradRandomWalkModel_init :: "double \<Rightarrow> TropoGradRandomWalkModel" where
  "TropoGradRandomWalkModel_init v0 = \<lparr> grad_qprime = 5 / 10 ^ 10, gmData = Map.empty, grad_variance = v0 \<rparr>"

definition TropoGradRandomWalkModel_setPreviousTime :: "TropoGradRandomWalkModel \<Rightarrow> SourceID \<Rightarrow> CommonTime \<Rightarrow> TropoGradRandomWalkModel" where
  "TropoGradRandomWalkModel_setPreviousTime m source prevTime =
     m\<lparr> gmData := (gmData m)(source \<mapsto> (at_or_new (gmData m) source)\<lparr> previousTime := prevTime \<rparr>) \<rparr>"

definition TropoGradRandomWalkModel_setCurrentTime :: "TropoGradRandomWalkModel \<Rightarrow> SourceID \<Rightarrow> CommonTime \<Rightarrow> TropoGradRandomWalkModel" where
  "TropoGradRandomWalkModel_setCurrentTime m source currTime =
     m\<lparr> gmData := (gmData m)(source \<mapsto> (at_or_new (gmData m) source)\<lparr> currentTime := currTime \<rparr>) \<rparr>"

definition TropoGradRandomWalkModel_setQprime_source :: "TropoGradRandomWalkModel \<Rightarrow> SourceID \<Rightarrow> double \<Rightarrow> TropoGradRandomWalkModel" where
  "TropoGradRandomWalkModel_setQprime_source m source qp = m\<lparr> grad_qprime := qp \<rparr>"

definition TropoGradRandomWalkModel_getQ :: "TropoGradRandomWalkModel \<Rightarrow> double \<times> TropoGradRandomWalkModel" where
  "TropoGradRandomWalkModel_getQ m = (grad_variance m, m)"

text \<open>Modelled from the spec: \<^verbatim>\<open>TropoGradRandomWalkModel::computeQ\<close> and \<^verbatim>\<open>TropoGradRandomWalkModel::Prepare\<close>.\<close>

definition TropoGradRandomWalkModel_computeQ :: "TropoGradRandomWalkModel \<Rightarrow> SatID \<Rightarrow> typeValueMap \<Rightarrow> SourceID \<Rightarrow> TropoGradRandomWalkModel" where
  "TropoGradRandomWalkModel_computeQ m sat data source =
     (case elapsedVariance (grad_qprime m) (at_or_new (gmData m) source) of
        (q, d) \<Rightarrow> m\<lparr> gmData := (gmData m)(source \<mapsto> d), grad_variance := q \<rparr>)"

definition TropoGradRandomWalkModel_Prepare ::
  "TropoGradRandomWalkModel \<Rightarrow> CommonTime \<Rightarrow> SourceID \<Rightarrow> SatID \<Rightarrow> typeValueMap \<Rightarrow> TropoGradRandomWalkModel" where
  "TropoGradRandomWalkModel_Prepare m epoch source sat tData =
     TropoGradRandomWalkModel_computeQ (TropoGradRandomWalkModel_setCurrentTime m source epoch) sat tData source"

subsubsection \<open>class IonoRandomWalkModel\<close>

record IonoRandomWalkModel =
  insertInterrupt :: bool
  sampling :: double
  tolerance :: double
  initialTime :: CommonTime
  iono_qprime :: double
  imData :: "SatID \<rightharpoonup> modelData"
  iono_variance :: double

definition IonoRandomWalkModel_init :: "double \<Rightarrow> IonoRandomWalkModel" where
  "IonoRandomWalkModel_init v0 =
     \<lparr> insertInterrupt = True,
       sampling = 7200,
       tolerance = 1 / 2,
       initialTime = BEGINNING_OF_TIME,
       iono_qprime = 1 / 10 ^ 3,
       imData = Map.empty,
       iono_variance = v0 \<rparr>"

definition IonoRandomWalkModel_setPreviousTime ::
  "IonoRandomWalkModel \<Rightarrow> SatID \<Rightarrow> CommonTime \<Rightarrow> IonoRandomWalkModel" where
  "IonoRandomWalkModel_setPreviousTime m sat prevTime =
     m\<lparr> imData := (imData m)(sat \<mapsto> (at_or_new (imData m) sat)\<lparr> previousTime := prevTime \<rparr>) \<rparr>"

definition IonoRandomWalkModel_setCurrentTime ::
  "IonoRandomWalkModel \<Rightarrow> SatID \<Rightarrow> CommonTime \<Rightarrow> IonoRandomWalkModel" where
  "IonoRandomWalkModel_setCurrentTime m sat currTime =
     m\<lparr> imData := (imData m)(sat \<mapsto> (at_or_new (imData m) sat)\<lparr> currentTime := currTime \<rparr>) \<rparr>"

definition IonoRandomWalkModel_setQprime_sat ::
  "IonoRandomWalkModel \<Rightarrow> SatID \<Rightarrow> double \<Rightarrow> IonoRandomWalkModel" where
  "IonoRandomWalkModel_setQprime_sat m sat qp = m\<lparr> iono_qprime := qp \<rparr>"

definition IonoRandomWalkModel_setInitialEpoch ::
  "IonoRandomWalkModel \<Rightarrow> CommonTime \<Rightarrow> IonoRandomWalkModel" where
  "IonoRandomWalkModel_setInitialEpoch m initialEpoch = m\<lparr> initialTime := initialEpoch \<rparr>"

definition IonoRandomWalkModel_setInsertInterrupt ::
  "IonoRandomWalkModel \<Rightarrow> bool \<Rightarrow> IonoRandomWalkModel" where
  "IonoRandomWalkModel_setInsertInterrupt m insertFlag = m\<lparr> insertInterrupt := insertFlag \<rparr>"

definition IonoRandomWalkModel_getQ :: "IonoRandomWalkModel \<Rightarrow> double \<times> IonoRandomWalkModel" where
  "IonoRandomWalkModel_getQ m = (iono_variance m, m)"

text \<open>Modelled from the spec: \<^verbatim>\<open>IonoRandomWalkModel::computeQ\<close>, the shared body.\<close>

definition IonoRandomWalkModel_computeQ ::
  "IonoRandomWalkModel \<Rightarrow> SatID \<Rightarrow> typeValueMap \<Rightarrow> SourceID \<Rightarrow> IonoRandomWalkModel" where
  "IonoRandomWalkModel_computeQ m sat data source =
     (case elapsedVariance (iono_qprime m) (at_or_new (imData m) sat) of
        (q, d) \<Rightarrow> m\<lparr> imData := (imData m)(sat \<mapsto> d), iono_variance := q \<rparr>)"

text \<open>
  Modelled from the spec: the interrupt schedule of \<^verbatim>\<open>IonoRandomWalkModel::Prepare\<close>.
  The spec: the current epoch falls within \<^verbatim>\<open>tolerance\<close> seconds of an integer multiple
  of \<^verbatim>\<open>sampling\<close> seconds measured from \<^verbatim>\<open>initialTime\<close>. The multiple nearest to the
  elapsed time is the one that is tested.
\<close>

definition interruptDue :: "IonoRandomWalkModel \<Rightarrow> CommonTime \<Rightarrow> bool" where
  "interruptDue m epoch =
     (let elapsed = epoch - initialTime m;
          k = round (elapsed / sampling m)
      in \<bar>elapsed - of_int k * sampling m\<bar> \<le> tolerance m)"

text \<open>
  Modelled from the spec: \<^verbatim>\<open>IonoRandomWalkModel::Prepare\<close>. The spec: if
  \<^verbatim>\<open>insertInterrupt\<close> is enabled and the epoch is on the schedule, the model injects a
  forced discontinuity, a large Q that overrides the elapsed-time Q for that epoch only;
  the rule is evaluated before the standard \<^verbatim>\<open>computeQ\<close> path and short-circuits it.
  The spec gives no value for the large Q: it is the argument \<open>interruptQ\<close>.
\<close>

definition IonoRandomWalkModel_Prepare ::
  "double \<Rightarrow> IonoRandomWalkModel \<Rightarrow> CommonTime \<Rightarrow> SourceID \<Rightarrow> SatID \<Rightarrow> typeValueMap
     \<Rightarrow> IonoRandomWalkModel" where
  "IonoRandomWalkModel_Prepare interruptQ m epoch source sat tData =
     (if insertInterrupt m \<and> interruptDue m epoch
      then m\<lparr> iono_variance := interruptQ \<rparr>
      else IonoRandomWalkModel_computeQ (IonoRandomWalkModel_setCurrentTime m sat epoch)
             sat tData source)"

subsubsection \<open>class RecBiasRandomWalkModel\<close>

record RecBiasRandomWalkModel =
  recb_qprime :: double
  rbData :: "SourceID \<rightharpoonup> modelData"
  recb_variance :: double

definition RecBiasRandomWalkModel_init :: "double \<Rightarrow> RecBiasRandomWalkModel" where
  "RecBiasRandomWalkModel_init v0 = \<lparr> recb_qprime = 1 / 10 ^ 4, rbData = Map.empty, recb_variance = v0 \<rparr>"

definition RecBiasRandomWalkModel_setPreviousTime :: "RecBiasRandomWalkModel \<Rightarrow> SourceID \<Rightarrow> CommonTime \<Rightarrow> RecBiasRandomWalkModel" where
  "RecBiasRandomWalkModel_setPreviousTime m source prevTime =
     m\<lparr> rbData := (rbData m)(source \<mapsto> (at_or_new (rbData m) source)\<lparr> previousTime := prevTime \<rparr>) \<rparr>"

definition RecBiasRandomWalkModel_setCurrentTime :: "RecBiasRandomWalkModel \<Rightarrow> SourceID \<Rightarrow> CommonTime \<Rightarrow> RecBiasRandomWalkModel" where
  "RecBiasRandomWalkModel_setCurrentTime m source currTime =
     m\<lparr> rbData := (rbData m)(source \<mapsto> (at_or_new (rbData m) source)\<lparr> currentTime := currTime \<rparr>) \<rparr>"

definition RecBiasRandomWalkModel_setQprime_source :: "RecBiasRandomWalkModel \<Rightarrow> SourceID \<Rightarrow> double \<Rightarrow> RecBiasRandomWalkModel" where
  "RecBiasRandomWalkModel_setQprime_source m source qp = m\<lparr> recb_qprime := qp \<rparr>"

definition RecBiasRandomWalkModel_getQ :: "RecBiasRandomWalkModel \<Rightarrow> double \<times> RecBiasRandomWalkModel" where
  "RecBiasRandomWalkModel_getQ m = (recb_variance m, m)"

text \<open>Modelled from the spec: \<^verbatim>\<open>RecBiasRandomWalkModel::computeQ\<close> and \<^verbatim>\<open>RecBiasRandomWalkModel::Prepare\<close>.\<close>

definition RecBiasRandomWalkModel_computeQ :: "RecBiasRandomWalkModel \<Rightarrow> SatID \<Rightarrow> typeValueMap \<Rightarrow> SourceID \<Rightarrow> RecBiasRandomWalkModel" where
  "RecBiasRandomWalkModel_computeQ m sat data source =
     (case elapsedVariance (recb_qprime m) (at_or_new (rbData m) source) of
        (q, d) \<Rightarrow> m\<lparr> rbData := (rbData m)(source \<mapsto> d), recb_variance := q \<rparr>)"

definition RecBiasRandomWalkModel_Prepare ::
  "RecBiasRandomWalkModel \<Rightarrow> CommonTime \<Rightarrow> SourceID \<Rightarrow> SatID \<Rightarrow> typeValueMap \<Rightarrow> RecBiasRandomWalkModel" where
  "RecBiasRandomWalkModel_Prepare m epoch source sat tData =
     RecBiasRandomWalkModel_computeQ (RecBiasRandomWalkModel_setCurrentTime m source epoch) sat tData source"

subsubsection \<open>class SatBiasRandomWalkModel\<close>

record SatBiasRandomWalkModel =
  satb_qprime :: double
  sbData :: "SatID \<rightharpoonup> modelData"
  satb_variance :: double

definition SatBiasRandomWalkModel_init :: "double \<Rightarrow> SatBiasRandomWalkModel" where
  "SatBiasRandomWalkModel_init v0 = \<lparr> satb_qprime = 3 / 10 ^ 6, sbData = Map.empty, satb_variance = v0 \<rparr>"

definition SatBiasRandomWalkModel_setPreviousTime :: "SatBiasRandomWalkModel \<Rightarrow> SatID \<Rightarrow> CommonTime \<Rightarrow> SatBiasRandomWalkModel" where
  "SatBiasRandomWalkModel_setPreviousTime m sat prevTime =
     m\<lparr> sbData := (sbData m)(sat \<mapsto> (at_or_new (sbData m) sat)\<lparr> previousTime := prevTime \<rparr>) \<rparr>"

definition SatBiasRandomWalkModel_setCurrentTime :: "SatBiasRandomWalkModel \<Rightarrow> SatID \<Rightarrow> CommonTime \<Rightarrow> SatBiasRandomWalkModel" where
  "SatBiasRandomWalkModel_setCurrentTime m sat currTime =
     m\<lparr> sbData := (sbData m)(sat \<mapsto> (at_or_new (sbData m) sat)\<lparr> currentTime := currTime \<rparr>) \<rparr>"

definition SatBiasRandomWalkModel_setQprime_sat :: "SatBiasRandomWalkModel \<Rightarrow> SatID \<Rightarrow> double \<Rightarrow> SatBiasRandomWalkModel" where
  "SatBiasRandomWalkModel_setQprime_sat m sat qp = m\<lparr> satb_qprime := qp \<rparr>"

definition SatBiasRandomWalkModel_getQ :: "SatBiasRandomWalkModel \<Rightarrow> double \<times> SatBiasRandomWalkModel" where
  "SatBiasRandomWalkModel_getQ m = (satb_variance m, m)"

text \<open>Modelled from the spec: \<^verbatim>\<open>SatBiasRandomWalkModel::computeQ\<close> and \<^verbatim>\<open>SatBiasRandomWalkModel::Prepare\<close>.\<close>

definition SatBiasRandomWalkModel_computeQ :: "SatBiasRandomWalkModel \<Rightarrow> SatID \<Rightarrow> typeValueMap \<Rightarrow> SourceID \<Rightarrow> SatBiasRandomWalkModel" where
  "SatBiasRandomWalkModel_computeQ m sat data source =
     (case elapsedVariance (satb_qprime m) (at_or_new (sbData m) sat) of
        (q, d) \<Rightarrow> m\<lparr> sbData := (sbData m)(sat \<mapsto> d), satb_variance := q \<rparr>)"

definition SatBiasRandomWalkModel_Prepare ::
  "SatBiasRandomWalkModel \<Rightarrow> CommonTime \<Rightarrow> SourceID \<Rightarrow> SatID \<Rightarrow> typeValueMap \<Rightarrow> SatBiasRandomWalkModel" where
  "SatBiasRandomWalkModel_Prepare m epoch source sat tData =
     SatBiasRandomWalkModel_computeQ (SatBiasRandomWalkModel_setCurrentTime m sat epoch) sat tData source"

subsubsection \<open>class ISBRandomWalkModel\<close>

record ISBRandomWalkModel =
  isb_qprime :: double
  ISBmData :: "SourceID \<rightharpoonup> modelData"
  isb_variance :: double

definition ISBRandomWalkModel_init :: "double \<Rightarrow> ISBRandomWalkModel" where
  "ISBRandomWalkModel_init v0 = \<lparr> isb_qprime = 9 / 10 ^ 4, ISBmData = Map.empty, isb_variance = v0 \<rparr>"

definition ISBRandomWalkModel_setPreviousTime :: "ISBRandomWalkModel \<Rightarrow> SourceID \<Rightarrow> CommonTime \<Rightarrow> ISBRandomWalkModel" where
  "ISBRandomWalkModel_setPreviousTime m source prevTime =
     m\<lparr> ISBmData := (ISBmData m)(source \<mapsto> (at_or_new (ISBmData m) source)\<lparr> previousTime := prevTime \<rparr>) \<rparr>"

definition ISBRandomWalkModel_setCurrentTime :: "ISBRandomWalkModel \<Rightarrow> SourceID \<Rightarrow> CommonTime \<Rightarrow> ISBRandomWalkModel" where
  "ISBRandomWalkModel_setCurrentTime m source currTime =
     m\<lparr> ISBmData := (ISBmData m)(source \<mapsto> (at_or_new (ISBmData m) source)\<lparr> currentTime := currTime \<rparr>) \<rparr>"

definition ISBRandomWalkModel_setQprime_source :: "ISBRandomWalkModel \<Rightarrow> SourceID \<Rightarrow> double \<Rightarrow> ISBRandomWalkModel" where
  "ISBRandomWalkModel_setQprime_source m source qp = m\<lparr> isb_qprime := qp \<rparr>"

definition ISBRandomWalkModel_getQ :: "ISBRandomWalkModel \<Rightarrow> double \<times> ISBRandomWalkModel" where
  "ISBRandomWalkModel_getQ m = (isb_variance m, m)"

text \<open>Modelled from the spec: \<^verbatim>\<open>ISBRandomWalkModel::computeQ\<close> and \<^verbatim>\<open>ISBRandomWalkModel::Prepare\<close>.\<close>

definition ISBRandomWalkModel_computeQ :: "ISBRandomWalkModel \<Rightarrow> SatID \<Rightarrow> typeValueMap \<Rightarrow> SourceID \<Rightarrow> ISBRandomWalkModel" where
  "ISBRandomWalkModel_computeQ m sat data source =
     (case elapsedVariance (isb_qprime m) (at_or_new (ISBmData m) source) of
        (q, d) \<Rightarrow> m\<lparr> ISBmData := (ISBmData m)(source \<mapsto> d), isb_variance := q \<rparr>)"

definition ISBRandomWalkModel_Prepare ::
  "ISBRandomWalkModel \<Rightarrow> CommonTime \<Rightarrow> SourceID \<Rightarrow> SatID \<Rightarrow> typeValueMap \<Rightarrow> ISBRandomWalkModel" where
  "ISBRandomWalkModel_Prepare m epoch source sat tData =
     ISBRandomWalkModel_computeQ (ISBRandomWalkModel_setCurrentTime m source epoch) sat tData source"

subsubsection \<open>class IFCBRandomWalkModel\<close>

text \<open>The records are in a map of maps, \<^verbatim>\<open>IFCBmData[source][sat]\<close>.\<close>

record IFCBRandomWalkModel =
  ifcb_qprime :: double
  IFCBmData :: "SourceID \<rightharpoonup> (SatID \<rightharpoonup> modelData)"
  ifcb_variance :: double

definition IFCBRandomWalkModel_init :: "double \<Rightarrow> IFCBRandomWalkModel" where
  "IFCBRandomWalkModel_init v0 =
     \<lparr> ifcb_qprime = 1 / 10 ^ 4, IFCBmData = Map.empty, ifcb_variance = v0 \<rparr>"

definition IFCBRandomWalkModel_setPreviousTime ::
  "IFCBRandomWalkModel \<Rightarrow> SourceID \<Rightarrow> SatID \<Rightarrow> CommonTime \<Rightarrow> IFCBRandomWalkModel" where
  "IFCBRandomWalkModel_setPreviousTime m source sat prevTime =
     (let inner = inner_or_new (IFCBmData m) source
      in m\<lparr> IFCBmData := (IFCBmData m)(source \<mapsto>
              inner(sat \<mapsto> (at_or_new inner sat)\<lparr> previousTime := prevTime \<rparr>)) \<rparr>)"

definition IFCBRandomWalkModel_setCurrentTime ::
  "IFCBRandomWalkModel \<Rightarrow> SourceID \<Rightarrow> SatID \<Rightarrow> CommonTime \<Rightarrow> IFCBRandomWalkModel" where
  "IFCBRandomWalkModel_setCurrentTime m source sat currTime =
     (let inner = inner_or_new (IFCBmData m) source
      in m\<lparr> IFCBmData := (IFCBmData m)(source \<mapsto>
              inner(sat \<mapsto> (at_or_new inner sat)\<lparr> currentTime := currTime \<rparr>)) \<rparr>)"

definition IFCBRandomWalkModel_setQprime_source_sat ::
  "IFCBRandomWalkModel \<Rightarrow> SourceID \<Rightarrow> SatID \<Rightarrow> double \<Rightarrow> IFCBRandomWalkModel" where
  "IFCBRandomWalkModel_setQprime_source_sat m source sat qp = m\<lparr> ifcb_qprime := qp \<rparr>"

definition IFCBRandomWalkModel_getQ :: "IFCBRandomWalkModel \<Rightarrow> double \<times> IFCBRandomWalkModel" where
  "IFCBRandomWalkModel_getQ m = (ifcb_variance m, m)"

text \<open>Modelled from the spec: \<^verbatim>\<open>IFCBRandomWalkModel::computeQ\<close> and \<^verbatim>\<open>IFCBRandomWalkModel::Prepare\<close>.\<close>

definition IFCBRandomWalkModel_computeQ ::
  "IFCBRandomWalkModel \<Rightarrow> SatID \<Rightarrow> typeValueMap \<Rightarrow> SourceID \<Rightarrow> IFCBRandomWalkModel" where
  "IFCBRandomWalkModel_computeQ m sat data source =
     (let inner = inner_or_new (IFCBmData m) source
      in case elapsedVariance (ifcb_qprime m) (at_or_new inner sat) of
           (q, d) \<Rightarrow> m\<lparr> IFCBmData := (IFCBmData m)(source \<mapsto> inner(sat \<mapsto> d)),
                         ifcb_variance := q \<rparr>)"

definition IFCBRandomWalkModel_Prepare ::
  "IFCBRandomWalkModel \<Rightarrow> CommonTime \<Rightarrow> SourceID \<Rightarrow> SatID \<Rightarrow> typeValueMap
     \<Rightarrow> IFCBRandomWalkModel" where
  "IFCBRandomWalkModel_Prepare m epoch source sat tData =
     IFCBRandomWalkModel_computeQ (IFCBRandomWalkModel_setCurrentTime m source sat epoch)
       sat tData source"

subsection \<open>Virtual dispatch\<close>

text \<open>
  A caller holds a \<^verbatim>\<open>StochasticModel\<close> pointer to an object of any of the eleven
  classes; a virtual call runs the body of the object's class, or the inherited one. The
  forced-discontinuity value of the ionospheric model is passed through \<open>Prepare\<close>.
\<close>

datatype StochasticModel =
    ConstantModel
  | RandomWalk RandomWalkModel
  | WhiteNoise WhiteNoiseModel
  | PhaseAmbiguity PhaseAmbiguityModel
  | TropoRandomWalk TropoRandomWalkModel
  | TropoGradRandomWalk TropoGradRandomWalkModel
  | IonoRandomWalk IonoRandomWalkModel
  | RecBiasRandomWalk RecBiasRandomWalkModel
  | SatBiasRandomWalk SatBiasRandomWalkModel
  | ISBRandomWalk ISBRandomWalkModel
  | IFCBRandomWalk IFCBRandomWalkModel

fun getPhi :: "StochasticModel \<Rightarrow> double \<times> StochasticModel" where
  "getPhi ConstantModel = apsnd (\<lambda>_. ConstantModel) (StochasticModel_getPhi ())"
| "getPhi (RandomWalk m) = apsnd RandomWalk (RandomWalkModel_getPhi m)"
| "getPhi (WhiteNoise m) = apsnd WhiteNoise (WhiteNoiseModel_getPhi m)"
| "getPhi (PhaseAmbiguity m) = apsnd PhaseAmbiguity (PhaseAmbiguityModel_getPhi m)"
| "getPhi (TropoRandomWalk m) = apsnd TropoRandomWalk (StochasticModel_getPhi m)"
| "getPhi (TropoGradRandomWalk m) = apsnd TropoGradRandomWalk (StochasticModel_getPhi m)"
| "getPhi (IonoRandomWalk m) = apsnd IonoRandomWalk (StochasticModel_getPhi m)"
| "getPhi (RecBiasRandomWalk m) = apsnd RecBiasRandomWalk (StochasticModel_getPhi m)"
| "getPhi (SatBiasRandomWalk m) = apsnd SatBiasRandomWalk (StochasticModel_getPhi m)"
| "getPhi (ISBRandomWalk m) = apsnd ISBRandomWalk (StochasticModel_getPhi m)"
| "getPhi (IFCBRandomWalk m) = apsnd IFCBRandomWalk (StochasticModel_getPhi m)"

fun getQ :: "StochasticModel \<Rightarrow> double \<times> StochasticModel" where
  "getQ ConstantModel = apsnd (\<lambda>_. ConstantModel) (StochasticModel_getQ ())"
| "getQ (RandomWalk m) = apsnd RandomWalk (RandomWalkModel_getQ m)"
| "getQ (WhiteNoise m) = apsnd WhiteNoise (WhiteNoiseModel_getQ m)"
| "getQ (PhaseAmbiguity m) = apsnd PhaseAmbiguity (PhaseAmbiguityModel_getQ m)"
| "getQ (TropoRandomWalk m) = apsnd TropoRandomWalk (TropoRandomWalkModel_getQ m)"
| "getQ (TropoGradRandomWalk m) = apsnd TropoGradRandomWalk (TropoGradRandomWalkModel_getQ m)"
| "getQ (IonoRandomWalk m) = apsnd IonoRandomWalk (IonoRandomWalkModel_getQ m)"
| "getQ (RecBiasRandomWalk m) = apsnd RecBiasRandomWalk (RecBiasRandomWalkModel_getQ m)"
| "getQ (SatBiasRandomWalk m) = apsnd SatBiasRandomWalk (SatBiasRandomWalkModel_getQ m)"
| "getQ (ISBRandomWalk m) = apsnd ISBRandomWalk (ISBRandomWalkModel_getQ m)"
| "getQ (IFCBRandomWalk m) = apsnd IFCBRandomWalk (IFCBRandomWalkModel_getQ m)"

fun Prepare ::
  "double \<Rightarrow> StochasticModel \<Rightarrow> CommonTime \<Rightarrow> SourceID \<Rightarrow> SatID \<Rightarrow> typeValueMap
     \<Rightarrow> StochasticModel" where
  "Prepare interruptQ ConstantModel epoch source sat tData =
     (case StochasticModel_Prepare () epoch source sat tData of _ \<Rightarrow> ConstantModel)"
| "Prepare interruptQ (RandomWalk m) epoch source sat tData =
     RandomWalk (RandomWalkModel_Prepare m epoch source sat tData)"
| "Prepare interruptQ (WhiteNoise m) epoch source sat tData =
     WhiteNoise (WhiteNoiseModel_Prepare m epoch source sat tData)"
| "Prepare interruptQ (PhaseAmbiguity m) epoch source sat tData =
     PhaseAmbiguity (PhaseAmbiguityModel_Prepare m epoch source sat tData)"
| "Prepare interruptQ (TropoRandomWalk m) epoch source sat tData =
     TropoRandomWalk (TropoRandomWalkModel_Prepare m epoch source sat tData)"
| "Prepare interruptQ (TropoGradRandomWalk m) epoch source sat tData =
     TropoGradRandomWalk (TropoGradRandomWalkModel_Prepare m epoch source sat tData)"
| "Prepare interruptQ (IonoRandomWalk m) epoch source sat tData =
     IonoRandomWalk (IonoRandomWalkModel_Prepare interruptQ m epoch source sat tData)"
| "Prepare interruptQ (RecBiasRandomWalk m) epoch source sat tData =
     RecBiasRandomWalk (RecBiasRandomWalkModel_Prepare m epoch source sat tData)"
| "Prepare interruptQ (SatBiasRandomWalk m) epoch source sat tData =
     SatBiasRandomWalk (SatBiasRandomWalkModel_Prepare m epoch source sat tData)"
| "Prepare interruptQ (ISBRandomWalk m) epoch source sat tData =
     ISBRandomWalk (ISBRandomWalkModel_Prepare m epoch source sat tData)"
| "Prepare interruptQ (IFCBRandomWalk m) epoch source sat tData =
     IFCBRandomWalk (IFCBRandomWalkModel_Prepare m epoch source sat tData)"

subsection \<open>Notions used by the properties\<close>

text \<open>A sequence of reads of the two coefficients, with no \<^verbatim>\<open>Prepare\<close> in between.\<close>

datatype Read = ReadPhi | ReadQ

fun readOnce :: "StochasticModel \<Rightarrow> Read \<Rightarrow> double \<times> StochasticModel" where
  "readOnce m ReadPhi = getPhi m"
| "readOnce m ReadQ = getQ m"

fun readMany :: "StochasticModel \<Rightarrow> Read list \<Rightarrow> double list \<times> StochasticModel" where
  "readMany m [] = ([], m)"
| "readMany m (r # rs) =
     (case readOnce m r of (v, m') \<Rightarrow>
        (case readMany m' rs of (vs, m'') \<Rightarrow> (v # vs, m'')))"

text \<open>
  Successive \<^verbatim>\<open>Prepare\<close> calls on a phase-ambiguity model for one (source, satellite)
  key: after each call, the cycle-slip flag that \<^verbatim>\<open>getCS\<close> returns and the arc value
  cached for the key.
\<close>

fun arcHistory ::
  "PhaseAmbiguityModel \<Rightarrow> SourceID \<Rightarrow> SatID \<Rightarrow> (CommonTime \<times> typeValueMap) list
     \<Rightarrow> (bool \<times> double option) list" where
  "arcHistory m source sat [] = []"
| "arcHistory m source sat ((epoch, tData) # calls) =
     (let m' = PhaseAmbiguityModel_Prepare m epoch source sat tData
      in (fst (PhaseAmbiguityModel_getCS m'), cachedArc m' source sat)
           # arcHistory m' source sat calls)"

text \<open>The spectral density of a member of the random-walk family.\<close>

fun randomWalkQprime :: "StochasticModel \<Rightarrow> double option" where
  "randomWalkQprime (RandomWalk m) = Some (rw_qprime m)"
| "randomWalkQprime (TropoRandomWalk m) = Some (tropo_qprime m)"
| "randomWalkQprime (TropoGradRandomWalk m) = Some (grad_qprime m)"
| "randomWalkQprime (IonoRandomWalk m) = Some (iono_qprime m)"
| "randomWalkQprime (RecBiasRandomWalk m) = Some (recb_qprime m)"
| "randomWalkQprime (SatBiasRandomWalk m) = Some (satb_qprime m)"
| "randomWalkQprime (ISBRandomWalk m) = Some (isb_qprime m)"
| "randomWalkQprime (IFCBRandomWalk m) = Some (ifcb_qprime m)"
| "randomWalkQprime _ = None"

text \<open>The seven per-entity variants, whose \<^verbatim>\<open>Prepare\<close> clamps the elapsed-time Q at 0.\<close>

fun clampsQ :: "StochasticModel \<Rightarrow> bool" where
  "clampsQ ConstantModel = False"
| "clampsQ (RandomWalk m) = False"
| "clampsQ (WhiteNoise m) = False"
| "clampsQ (PhaseAmbiguity m) = False"
| "clampsQ _ = True"

text \<open>Whether \<^verbatim>\<open>Prepare\<close> at this epoch takes the forced-discontinuity branch.\<close>

fun interruptsAt :: "StochasticModel \<Rightarrow> CommonTime \<Rightarrow> bool" where
  "interruptsAt (IonoRandomWalk m) epoch = (insertInterrupt m \<and> interruptDue m epoch)"
| "interruptsAt _ epoch = False"

text \<open>
  The elapsed time that a per-entity \<^verbatim>\<open>Prepare\<close> at \<open>epoch\<close> sees for an entity, given
  the entity's stored record: zero for a new entity and for one whose \<^verbatim>\<open>previousTime\<close>
  is unset.
\<close>

definition elapsedFor :: "modelData option \<Rightarrow> CommonTime \<Rightarrow> double" where
  "elapsedFor stored epoch =
     (case stored of
        None \<Rightarrow> 0
      | Some d \<Rightarrow> if previousTime d = BEGINNING_OF_TIME then 0 else epoch - previousTime d)"

definition storedFor :: "('k \<rightharpoonup> ('j \<rightharpoonup> modelData)) \<Rightarrow> 'k \<Rightarrow> 'j \<Rightarrow> modelData option" where
  "storedFor mp k j = (case mp k of None \<Rightarrow> None | Some inner \<Rightarrow> inner j)"

text \<open>A history of \<^verbatim>\<open>Prepare\<close> calls on an object of any class.\<close>

fun Prepares :: "double \<Rightarrow> StochasticModel \<Rightarrow> PrepareArgs list \<Rightarrow> StochasticModel" where
  "Prepares interruptQ m [] = m"
| "Prepares interruptQ m ((epoch, source, sat, tData) # calls) =
     Prepares interruptQ (Prepare interruptQ m epoch source sat tData) calls"

text \<open>
  The stored members from which a non-negative Q follows: a non-negative variance in a
  white-noise or phase-ambiguity model, a non-negative \<^verbatim>\<open>qprime\<close> in a
  \<^verbatim>\<open>RandomWalkModel\<close>; nothing is asked of the other classes.
\<close>

fun storedNonNegative :: "StochasticModel \<Rightarrow> bool" where
  "storedNonNegative (RandomWalk m) = (0 \<le> rw_qprime m)"
| "storedNonNegative (WhiteNoise m) = (0 \<le> wn_variance m)"
| "storedNonNegative (PhaseAmbiguity m) = (0 \<le> pa_variance m)"
| "storedNonNegative _ = True"

text \<open>
  The epochs of a history of \<^verbatim>\<open>Prepare\<close> calls do not decrease, starting from the
  \<^verbatim>\<open>currentTime\<close> stored in the object (\<^verbatim>\<open>RandomWalkModel\<close>; nothing is asked of the
  other classes).
\<close>

fun epochsInOrder :: "StochasticModel \<Rightarrow> CommonTime list \<Rightarrow> bool" where
  "epochsInOrder (RandomWalk m) epochs = sorted (rw_currentTime m # epochs)"
| "epochsInOrder _ epochs = True"

section \<open>Properties\<close>

subsection \<open>Helper facts\<close>

lemma WhiteNoiseModel_Prepares_id: "WhiteNoiseModel_Prepares m calls = m"
  by (induction calls arbitrary: m) (auto simp: WhiteNoiseModel_Prepare_def StochasticModel_Prepare_def)

lemmas getQ_defs =
  StochasticModel_getQ_def RandomWalkModel_getQ_def WhiteNoiseModel_getQ_def
  PhaseAmbiguityModel_getQ_def TropoRandomWalkModel_getQ_def TropoGradRandomWalkModel_getQ_def
  IonoRandomWalkModel_getQ_def RecBiasRandomWalkModel_getQ_def SatBiasRandomWalkModel_getQ_def
  ISBRandomWalkModel_getQ_def IFCBRandomWalkModel_getQ_def

lemmas getPhi_defs =
  StochasticModel_getPhi_def RandomWalkModel_getPhi_def WhiteNoiseModel_getPhi_def
  PhaseAmbiguityModel_getPhi_def

lemma getPhi_state: "snd (getPhi m) = m"
  by (cases m) (simp_all add: getPhi_defs)

lemma getQ_state: "snd (getQ m) = m"
  by (cases m) (simp_all add: getQ_defs)

lemma readOnce_state: "snd (readOnce m r) = m"
  by (cases r) (simp_all add: getPhi_state getQ_state)

text \<open>One \<^verbatim>\<open>Prepare\<close> call in arc mode, on a container that has the arc counter.\<close>

lemma Prepare_arc_mode:
  "PhaseAmbiguityModel_Prepare (PhaseAmbiguityModel_setWatchSatArc m True) epoch source sat
       (tData(satArc \<mapsto> arc))
   = m\<lparr> cycleSlip := (case cachedArc m source sat of None \<Rightarrow> False | Some old \<Rightarrow> arc \<noteq> old),
        watchSatArc := True,
        satArcMap := storeArc (satArcMap m) source sat arc \<rparr>"
  by (simp add: PhaseAmbiguityModel_Prepare_def PhaseAmbiguityModel_checkCS_def fieldOf_def
      PhaseAmbiguityModel_setWatchSatArc_def PhaseAmbiguityModel_setCS_def cachedArc_def Let_def)

lemma Prepare_arc_step:
  "watchSatArc m \<Longrightarrow>
   PhaseAmbiguityModel_Prepare m epoch source sat (tData(satArc \<mapsto> arc))
   = m\<lparr> cycleSlip := (case cachedArc m source sat of None \<Rightarrow> False | Some old \<Rightarrow> arc \<noteq> old),
        satArcMap := storeArc (satArcMap m) source sat arc \<rparr>"
  by (simp add: PhaseAmbiguityModel_Prepare_def PhaseAmbiguityModel_checkCS_def fieldOf_def
      PhaseAmbiguityModel_setCS_def cachedArc_def Let_def)

text \<open>
  The multiple of \<open>s\<close> with the rounded quotient is at least as near to \<open>d\<close> as any
  other, so the schedule test of the ionospheric model misses no multiple.
\<close>

lemma nearest_multiple:
  fixes d s :: real
  shows "\<bar>d - of_int (round (d / s)) * s\<bar> \<le> \<bar>d - of_int k * s\<bar>"
proof (cases "s = 0")
  case True
  then show ?thesis by simp
next
  case False
  have "\<bar>d / s - of_int (round (d / s))\<bar> \<le> \<bar>d / s - of_int k\<bar>"
    by (rule round_diff_minimal)
  then have "\<bar>d / s - of_int (round (d / s))\<bar> * \<bar>s\<bar> \<le> \<bar>d / s - of_int k\<bar> * \<bar>s\<bar>"
    by (rule mult_right_mono) simp
  moreover have "\<bar>d / s - of_int j\<bar> * \<bar>s\<bar> = \<bar>d - of_int j * s\<bar>" for j :: int
    using False by (simp add: abs_mult [symmetric] left_diff_distrib)
  ultimately show ?thesis by simp
qed

lemma interruptDue_iff:
  "interruptDue m epoch \<longleftrightarrow>
     (\<exists>k::int. \<bar>(epoch - initialTime m) - of_int k * sampling m\<bar> \<le> tolerance m)"
  unfolding interruptDue_def Let_def
  using nearest_multiple [of "epoch - initialTime m" "sampling m"]
  by (meson order_trans)

text \<open>The variance that one \<^verbatim>\<open>Prepare\<close> call of a per-entity class leaves.\<close>

lemma TropoRandomWalkModel_Prepare_variance:
  "tropo_variance (TropoRandomWalkModel_Prepare m epoch source sat tData)
     = max 0 (tropo_qprime m * elapsedFor (tmData m source) epoch)"
  by (simp add: TropoRandomWalkModel_Prepare_def TropoRandomWalkModel_computeQ_def TropoRandomWalkModel_setCurrentTime_def
      at_or_new_def elapsedVariance_def elapsedFor_def modelData_init_def Let_def
      split: option.split)

lemma TropoGradRandomWalkModel_Prepare_variance:
  "grad_variance (TropoGradRandomWalkModel_Prepare m epoch source sat tData)
     = max 0 (grad_qprime m * elapsedFor (gmData m source) epoch)"
  by (simp add: TropoGradRandomWalkModel_Prepare_def TropoGradRandomWalkModel_computeQ_def TropoGradRandomWalkModel_setCurrentTime_def
      at_or_new_def elapsedVariance_def elapsedFor_def modelData_init_def Let_def
      split: option.split)

lemma IonoRandomWalkModel_Prepare_variance:
  "iono_variance (IonoRandomWalkModel_Prepare interruptQ m epoch source sat tData)
     = (if insertInterrupt m \<and> interruptDue m epoch then interruptQ
        else max 0 (iono_qprime m * elapsedFor (imData m sat) epoch))"
  by (simp add: IonoRandomWalkModel_Prepare_def IonoRandomWalkModel_computeQ_def
      IonoRandomWalkModel_setCurrentTime_def
      at_or_new_def elapsedVariance_def elapsedFor_def modelData_init_def Let_def
      split: option.split)

lemma RecBiasRandomWalkModel_Prepare_variance:
  "recb_variance (RecBiasRandomWalkModel_Prepare m epoch source sat tData)
     = max 0 (recb_qprime m * elapsedFor (rbData m source) epoch)"
  by (simp add: RecBiasRandomWalkModel_Prepare_def RecBiasRandomWalkModel_computeQ_def RecBiasRandomWalkModel_setCurrentTime_def
      at_or_new_def elapsedVariance_def elapsedFor_def modelData_init_def Let_def
      split: option.split)

lemma SatBiasRandomWalkModel_Prepare_variance:
  "satb_variance (SatBiasRandomWalkModel_Prepare m epoch source sat tData)
     = max 0 (satb_qprime m * elapsedFor (sbData m sat) epoch)"
  by (simp add: SatBiasRandomWalkModel_Prepare_def SatBiasRandomWalkModel_computeQ_def SatBiasRandomWalkModel_setCurrentTime_def
      at_or_new_def elapsedVariance_def elapsedFor_def modelData_init_def Let_def
      split: option.split)

lemma ISBRandomWalkModel_Prepare_variance:
  "isb_variance (ISBRandomWalkModel_Prepare m epoch source sat tData)
     = max 0 (isb_qprime m * elapsedFor (ISBmData m source) epoch)"
  by (simp add: ISBRandomWalkModel_Prepare_def ISBRandomWalkModel_computeQ_def ISBRandomWalkModel_setCurrentTime_def
      at_or_new_def elapsedVariance_def elapsedFor_def modelData_init_def Let_def
      split: option.split)

lemma IFCBRandomWalkModel_Prepare_variance:
  "ifcb_variance (IFCBRandomWalkModel_Prepare m epoch source sat tData)
     = max 0 (ifcb_qprime m * elapsedFor (storedFor (IFCBmData m) source sat) epoch)"
  by (simp add: IFCBRandomWalkModel_Prepare_def IFCBRandomWalkModel_computeQ_def
      IFCBRandomWalkModel_setCurrentTime_def inner_or_new_def storedFor_def
      at_or_new_def elapsedVariance_def elapsedFor_def modelData_init_def Let_def
      split: option.split)

lemmas Prepare_variance =
  TropoRandomWalkModel_Prepare_variance TropoGradRandomWalkModel_Prepare_variance
  IonoRandomWalkModel_Prepare_variance RecBiasRandomWalkModel_Prepare_variance
  SatBiasRandomWalkModel_Prepare_variance ISBRandomWalkModel_Prepare_variance
  IFCBRandomWalkModel_Prepare_variance

text \<open>The variance that two successive \<^verbatim>\<open>Prepare\<close> calls for one entity leave.\<close>

lemma TropoRandomWalkModel_two_Prepares:
  assumes "BEGINNING_OF_TIME < t0"
  shows "tropo_variance (TropoRandomWalkModel_Prepare
           (TropoRandomWalkModel_Prepare m t0 source sat d0) t1 source sat d1)
         = max 0 (tropo_qprime m * (t1 - t0))"
  using assms
  by (simp add: TropoRandomWalkModel_Prepare_def TropoRandomWalkModel_computeQ_def
      TropoRandomWalkModel_setCurrentTime_def at_or_new_def elapsedVariance_def Let_def)

lemma TropoGradRandomWalkModel_two_Prepares:
  assumes "BEGINNING_OF_TIME < t0"
  shows "grad_variance (TropoGradRandomWalkModel_Prepare
           (TropoGradRandomWalkModel_Prepare m t0 source sat d0) t1 source sat d1)
         = max 0 (grad_qprime m * (t1 - t0))"
  using assms
  by (simp add: TropoGradRandomWalkModel_Prepare_def TropoGradRandomWalkModel_computeQ_def
      TropoGradRandomWalkModel_setCurrentTime_def at_or_new_def elapsedVariance_def Let_def)

lemma IonoRandomWalkModel_Prepare_quiet:
  assumes "\<not> (insertInterrupt m \<and> interruptDue m epoch)"
  shows "IonoRandomWalkModel_Prepare interruptQ m epoch source sat tData
    = IonoRandomWalkModel_computeQ (IonoRandomWalkModel_setCurrentTime m sat epoch) sat tData source"
  using assms by (auto simp: IonoRandomWalkModel_Prepare_def)

lemma IonoRandomWalkModel_computeQ_schedule:
  "insertInterrupt (IonoRandomWalkModel_computeQ (IonoRandomWalkModel_setCurrentTime m sat epoch)
      sat tData source) = insertInterrupt m"
  "interruptDue (IonoRandomWalkModel_computeQ (IonoRandomWalkModel_setCurrentTime m sat epoch)
      sat tData source) t = interruptDue m t"
  by (simp_all add: IonoRandomWalkModel_computeQ_def IonoRandomWalkModel_setCurrentTime_def
      interruptDue_def split: prod.split)

lemma IonoRandomWalkModel_two_Prepares:
  assumes "BEGINNING_OF_TIME < t0"
    and "\<not> (insertInterrupt m \<and> interruptDue m t0)"
    and "\<not> (insertInterrupt m \<and> interruptDue m t1)"
  shows "iono_variance (IonoRandomWalkModel_Prepare interruptQ
           (IonoRandomWalkModel_Prepare interruptQ m t0 source sat d0) t1 source sat d1)
         = max 0 (iono_qprime m * (t1 - t0))"
proof -
  let ?m1 = "IonoRandomWalkModel_computeQ (IonoRandomWalkModel_setCurrentTime m sat t0) sat d0 source"
  have first: "IonoRandomWalkModel_Prepare interruptQ m t0 source sat d0 = ?m1"
    using assms(2) by (rule IonoRandomWalkModel_Prepare_quiet)
  have "\<not> (insertInterrupt ?m1 \<and> interruptDue ?m1 t1)"
    using assms(3) by (auto simp: IonoRandomWalkModel_computeQ_schedule)
  then have second: "IonoRandomWalkModel_Prepare interruptQ ?m1 t1 source sat d1
      = IonoRandomWalkModel_computeQ (IonoRandomWalkModel_setCurrentTime ?m1 sat t1) sat d1 source"
    by (rule IonoRandomWalkModel_Prepare_quiet)
  show ?thesis
    unfolding first second using assms(1)
    by (simp add: IonoRandomWalkModel_computeQ_def
      IonoRandomWalkModel_setCurrentTime_def at_or_new_def elapsedVariance_def Let_def)
qed

lemma RecBiasRandomWalkModel_two_Prepares:
  assumes "BEGINNING_OF_TIME < t0"
  shows "recb_variance (RecBiasRandomWalkModel_Prepare
           (RecBiasRandomWalkModel_Prepare m t0 source sat d0) t1 source sat d1)
         = max 0 (recb_qprime m * (t1 - t0))"
  using assms
  by (simp add: RecBiasRandomWalkModel_Prepare_def RecBiasRandomWalkModel_computeQ_def
      RecBiasRandomWalkModel_setCurrentTime_def at_or_new_def elapsedVariance_def Let_def)

lemma SatBiasRandomWalkModel_two_Prepares:
  assumes "BEGINNING_OF_TIME < t0"
  shows "satb_variance (SatBiasRandomWalkModel_Prepare
           (SatBiasRandomWalkModel_Prepare m t0 source sat d0) t1 source sat d1)
         = max 0 (satb_qprime m * (t1 - t0))"
  using assms
  by (simp add: SatBiasRandomWalkModel_Prepare_def SatBiasRandomWalkModel_computeQ_def
      SatBiasRandomWalkModel_setCurrentTime_def at_or_new_def elapsedVariance_def Let_def)

lemma ISBRandomWalkModel_two_Prepares:
  assumes "BEGINNING_OF_TIME < t0"
  shows "isb_variance (ISBRandomWalkModel_Prepare
           (ISBRandomWalkModel_Prepare m t0 source sat d0) t1 source sat d1)
         = max 0 (isb_qprime m * (t1 - t0))"
  using assms
  by (simp add: ISBRandomWalkModel_Prepare_def ISBRandomWalkModel_computeQ_def
      ISBRandomWalkModel_setCurrentTime_def at_or_new_def elapsedVariance_def Let_def)

lemma IFCBRandomWalkModel_two_Prepares:
  assumes "BEGINNING_OF_TIME < t0"
  shows "ifcb_variance (IFCBRandomWalkModel_Prepare
           (IFCBRandomWalkModel_Prepare m t0 source sat d0) t1 source sat d1)
         = max 0 (ifcb_qprime m * (t1 - t0))"
  using assms
  by (simp add: IFCBRandomWalkModel_Prepare_def IFCBRandomWalkModel_computeQ_def
      IFCBRandomWalkModel_setCurrentTime_def at_or_new_def inner_or_new_def elapsedVariance_def Let_def)

lemmas two_Prepares =
  TropoRandomWalkModel_two_Prepares TropoGradRandomWalkModel_two_Prepares
  RecBiasRandomWalkModel_two_Prepares SatBiasRandomWalkModel_two_Prepares
  ISBRandomWalkModel_two_Prepares IFCBRandomWalkModel_two_Prepares

lemma clamp_id:
  fixes qp t0 t1 :: real
  shows "0 \<le> qp \<Longrightarrow> t0 < t1 \<Longrightarrow> max 0 (qp * (t1 - t0)) = qp * (t1 - t0)"
  by (simp add: max_def)

text \<open>One \<^verbatim>\<open>Prepare\<close> call, then a history of them, keeps Q non-negative.\<close>

lemma Prepare_step_nonneg:
  assumes "0 \<le> interruptQ" and "storedNonNegative m" and "epochsInOrder m (epoch # epochs)"
  shows "0 \<le> fst (getQ (Prepare interruptQ m epoch source sat tData))"
    and "storedNonNegative (Prepare interruptQ m epoch source sat tData)"
    and "epochsInOrder (Prepare interruptQ m epoch source sat tData) epochs"
  using assms
  by (cases m; simp add: Prepare_variance getQ_defs StochasticModel_Prepare_def
      WhiteNoiseModel_Prepare_def RandomWalkModel_Prepare_def RandomWalkModel_setCurrentTime_def
      RandomWalkModel_setPreviousTime_def PhaseAmbiguityModel_Prepare_def
      PhaseAmbiguityModel_checkCS_def PhaseAmbiguityModel_setCS_def Let_def split: option.split)+

lemma Prepares_nonneg:
  assumes "0 \<le> interruptQ"
  shows "storedNonNegative m \<Longrightarrow> epochsInOrder m (map fst calls) \<Longrightarrow> calls \<noteq> [] \<Longrightarrow>
     0 \<le> fst (getQ (Prepares interruptQ m calls)) \<and> storedNonNegative (Prepares interruptQ m calls)"
proof (induction calls arbitrary: m)
  case Nil
  then show ?case by simp
next
  case (Cons c calls)
  obtain epoch source sat tData where c: "c = (epoch, source, sat, tData)"
    by (cases c)
  let ?m1 = "Prepare interruptQ m epoch source sat tData"
  from Cons.prems(2) c have order: "epochsInOrder m (epoch # map fst calls)"
    by simp
  note step = Prepare_step_nonneg [OF assms Cons.prems(1) order, of source sat tData]
  show ?case
  proof (cases "calls = []")
    case True
    with c step(1,2) show ?thesis by simp
  next
    case False
    from Cons.IH [OF step(2) step(3) False] c show ?thesis by simp
  qed
qed

text \<open>
  Why the amended C1 and C8 carry their side conditions: a negative \<^verbatim>\<open>qprime\<close> of a
  per-entity variant is clamped away, a first epoch equal to the sentinel still counts as
  unset at the second call, and a \<^verbatim>\<open>RandomWalkModel\<close> returns a negative Q when an
  epoch is earlier than the one before it or than the \<^verbatim>\<open>currentTime\<close> that the
  constructor stored.
\<close>

lemma negative_qprime_is_clamped:
  "fst (getQ (Prepare 0
        (Prepare 0
           (TropoRandomWalk (TropoRandomWalkModel_setQprime_source (TropoRandomWalkModel_init 0)
              (SourceID 1) (- 1)))
           10 (SourceID 1) (SatID 1) Map.empty)
        20 (SourceID 1) (SatID 1) Map.empty)) = 0"
  by (simp add: TropoRandomWalkModel_getQ_def TropoRandomWalkModel_two_Prepares
      TropoRandomWalkModel_setQprime_source_def BEGINNING_OF_TIME_def)

lemma sentinel_epoch_is_unset:
  "fst (getQ (Prepare 0
        (Prepare 0 (TropoRandomWalk (TropoRandomWalkModel_init 0))
           BEGINNING_OF_TIME (SourceID 1) (SatID 1) Map.empty)
        20 (SourceID 1) (SatID 1) Map.empty)) = 0"
  by (simp add: TropoRandomWalkModel_getQ_def TropoRandomWalkModel_Prepare_def
      TropoRandomWalkModel_computeQ_def TropoRandomWalkModel_setCurrentTime_def at_or_new_def
      modelData_init_def elapsedVariance_def Let_def)

lemma backward_epoch_negative_Q:
  "fst (getQ (Prepare 0
        (Prepare 0 (RandomWalk RandomWalkModel_default) 20 (SourceID 1) (SatID 1) Map.empty)
        10 (SourceID 1) (SatID 1) Map.empty)) < 0"
  by (simp add: RandomWalkModel_getQ_def RandomWalkModel_Prepare_def RandomWalkModel_setCurrentTime_def
      RandomWalkModel_setPreviousTime_def RandomWalkModel_default_def)

lemma stored_epoch_counts:
  "fst (getQ (Prepare 0 (RandomWalk (RandomWalkModel_init 1 100 0)) 50 (SourceID 1) (SatID 1) Map.empty))
     = - 50"
  by (simp add: RandomWalkModel_getQ_def RandomWalkModel_Prepare_def RandomWalkModel_setCurrentTime_def
      RandomWalkModel_setPreviousTime_def RandomWalkModel_init_def)

subsection \<open>The claims\<close>

text \<open>
  C1, as amended. For the single-entity \<^verbatim>\<open>RandomWalkModel\<close> and for each of the seven
  per-entity variants, two \<^verbatim>\<open>Prepare\<close> calls for the same entity at epochs
  \<open>t0 < t1\<close>, both later than the sentinel, make \<^verbatim>\<open>getQ\<close> return
  \<open>qprime * (t1 - t0)\<close> and \<^verbatim>\<open>getPhi\<close> return 1, provided that \<open>qprime\<close> is not
  negative where the variant clamps Q at 0, and that neither epoch is on the interrupt
  schedule of an ionospheric model with interrupts enabled.
\<close>

theorem random_walk_elapsed_Q:
  assumes "randomWalkQprime m = Some qp"
    and "BEGINNING_OF_TIME < t0" and "t0 < t1"
    and "clampsQ m \<Longrightarrow> 0 \<le> qp"
    and "\<not> interruptsAt m t0" and "\<not> interruptsAt m t1"
  shows "fst (getQ (Prepare interruptQ (Prepare interruptQ m t0 source sat d0) t1 source sat d1))
           = qp * (t1 - t0)
       \<and> fst (getPhi (Prepare interruptQ (Prepare interruptQ m t0 source sat d0) t1 source sat d1))
           = 1"
proof (cases m)
  case (RandomWalk r)
  with assms(1) show ?thesis
    by (simp add: RandomWalkModel_getQ_def RandomWalkModel_getPhi_def StochasticModel_getPhi_def
        RandomWalkModel_Prepare_def RandomWalkModel_setCurrentTime_def
        RandomWalkModel_setPreviousTime_def)
next
  case (TropoRandomWalk r)
  with assms show ?thesis
    by (simp add: two_Prepares TropoRandomWalkModel_getQ_def StochasticModel_getPhi_def clamp_id)
next
  case (TropoGradRandomWalk r)
  with assms show ?thesis
    by (simp add: two_Prepares TropoGradRandomWalkModel_getQ_def StochasticModel_getPhi_def clamp_id)
next
  case (IonoRandomWalk r)
  with assms show ?thesis
    by (simp add: IonoRandomWalkModel_two_Prepares IonoRandomWalkModel_getQ_def
        StochasticModel_getPhi_def clamp_id)
next
  case (RecBiasRandomWalk r)
  with assms show ?thesis
    by (simp add: two_Prepares RecBiasRandomWalkModel_getQ_def StochasticModel_getPhi_def clamp_id)
next
  case (SatBiasRandomWalk r)
  with assms show ?thesis
    by (simp add: two_Prepares SatBiasRandomWalkModel_getQ_def StochasticModel_getPhi_def clamp_id)
next
  case (ISBRandomWalk r)
  with assms show ?thesis
    by (simp add: two_Prepares ISBRandomWalkModel_getQ_def StochasticModel_getPhi_def clamp_id)
next
  case (IFCBRandomWalk r)
  with assms show ?thesis
    by (simp add: two_Prepares IFCBRandomWalkModel_getQ_def StochasticModel_getPhi_def clamp_id)
qed (use assms in simp_all)

text \<open>
  A run of the amended C1: a default ionospheric model, interrupts enabled, for one
  satellite at the epochs 7000 and 7100, neither of which is on the schedule.
\<close>

theorem random_walk_elapsed_Q_witness:
  "randomWalkQprime (IonoRandomWalk (IonoRandomWalkModel_init 0)) = Some (1 / 10 ^ 3)
   \<and> BEGINNING_OF_TIME < 7000
   \<and> \<not> interruptsAt (IonoRandomWalk (IonoRandomWalkModel_init 0)) 7000
   \<and> \<not> interruptsAt (IonoRandomWalk (IonoRandomWalkModel_init 0)) 7100
   \<and> fst (getQ (Prepare 90000000000
        (Prepare 90000000000 (IonoRandomWalk (IonoRandomWalkModel_init 0))
           7000 (SourceID 1) (SatID 1) Map.empty)
        7100 (SourceID 1) (SatID 1) Map.empty))
     = 1 / 10 ^ 3 * (7100 - 7000)
   \<and> fst (getPhi (Prepare 90000000000
        (Prepare 90000000000 (IonoRandomWalk (IonoRandomWalkModel_init 0))
           7000 (SourceID 1) (SatID 1) Map.empty)
        7100 (SourceID 1) (SatID 1) Map.empty))
     = 1"
proof -
  let ?m = "IonoRandomWalk (IonoRandomWalkModel_init 0)"
  have qp: "randomWalkQprime ?m = Some (1 / 10 ^ 3)"
    by (simp add: IonoRandomWalkModel_init_def)
  have real_epoch: "BEGINNING_OF_TIME < 7000"
    by (simp add: BEGINNING_OF_TIME_def)
  have density: "clampsQ ?m \<Longrightarrow> (0::real) \<le> 1 / 10 ^ 3"
    by simp
  have quiet0: "\<not> interruptsAt ?m 7000"
    by (simp add: interruptDue_def IonoRandomWalkModel_init_def BEGINNING_OF_TIME_def round_def)
  have quiet1: "\<not> interruptsAt ?m 7100"
    by (simp add: interruptDue_def IonoRandomWalkModel_init_def BEGINNING_OF_TIME_def round_def)
  have in_order: "(7000::real) < 7100"
    by simp
  from random_walk_elapsed_Q [OF qp real_epoch in_order density quiet0 quiet1,
      of 90000000000 "SourceID 1" "SatID 1" Map.empty Map.empty]
    qp real_epoch quiet0 quiet1
  show ?thesis
    by blast
qed

text \<open>
  C1 as stated fails on the ionospheric model, which is constructed with interrupts
  enabled: the second of two \<^verbatim>\<open>Prepare\<close> calls at the epochs 7100 and 7200 is on the
  schedule (one sampling interval after the initial time), and Q is the
  forced-discontinuity value, here 9.0e10, not \<open>qprime * 100\<close>.
\<close>

theorem random_walk_elapsed_Q_counterexample:
  "randomWalkQprime (IonoRandomWalk (IonoRandomWalkModel_init 0)) = Some (1 / 10 ^ 3)
   \<and> fst (getQ (Prepare 90000000000
        (Prepare 90000000000 (IonoRandomWalk (IonoRandomWalkModel_init 0))
           7100 (SourceID 1) (SatID 1) Map.empty)
        7200 (SourceID 1) (SatID 1) Map.empty))
     = 90000000000
   \<and> fst (getQ (Prepare 90000000000
        (Prepare 90000000000 (IonoRandomWalk (IonoRandomWalkModel_init 0))
           7100 (SourceID 1) (SatID 1) Map.empty)
        7200 (SourceID 1) (SatID 1) Map.empty))
     \<noteq> 1 / 10 ^ 3 * (7200 - 7100)"
  by (simp add: IonoRandomWalkModel_Prepare_variance IonoRandomWalkModel_getQ_def
      IonoRandomWalkModel_Prepare_def IonoRandomWalkModel_computeQ_def
      IonoRandomWalkModel_setCurrentTime_def elapsedVariance_def at_or_new_def modelData_init_def
      interruptDue_def IonoRandomWalkModel_init_def BEGINNING_OF_TIME_def round_def Let_def)

text \<open>
  C2. With \<^verbatim>\<open>insertInterrupt\<close> enabled, a \<^verbatim>\<open>Prepare\<close> call of the ionospheric model at
  an epoch within \<^verbatim>\<open>tolerance\<close> seconds of an integer multiple \<open>k\<close> of \<^verbatim>\<open>sampling\<close>
  seconds from \<^verbatim>\<open>initialTime\<close> takes the forced-discontinuity branch: the variance is
  the large Q and nothing else changes, whatever the records of the satellites hold. A
  default-constructed model has interrupts enabled, a sampling of 7200 s and a tolerance
  of 0.5 s.
\<close>

theorem iono_forced_discontinuity:
  assumes "insertInterrupt m"
    and "\<bar>(epoch - initialTime m) - of_int k * sampling m\<bar> \<le> tolerance m"
  shows "IonoRandomWalkModel_Prepare interruptQ m epoch source sat tData
           = m\<lparr> iono_variance := interruptQ \<rparr>
       \<and> fst (IonoRandomWalkModel_getQ
               (IonoRandomWalkModel_Prepare interruptQ m epoch source sat tData)) = interruptQ
       \<and> insertInterrupt (IonoRandomWalkModel_init v0)
       \<and> sampling (IonoRandomWalkModel_init v0) = 7200
       \<and> tolerance (IonoRandomWalkModel_init v0) = 1 / 2"
proof -
  have "interruptDue m epoch"
    using assms(2) interruptDue_iff by blast
  with assms(1) show ?thesis
    by (simp add: IonoRandomWalkModel_Prepare_def IonoRandomWalkModel_getQ_def
        IonoRandomWalkModel_init_def)
qed

text \<open>
  A run of C2: the previous epoch of satellite 3 is one second before the first scheduled
  interrupt of a default model, and the call at 7200 s yields the large Q.
\<close>

theorem iono_forced_discontinuity_witness:
  "insertInterrupt (IonoRandomWalkModel_setPreviousTime (IonoRandomWalkModel_init 0) (SatID 3) 7199)
   \<and> \<bar>(7200 - initialTime
          (IonoRandomWalkModel_setPreviousTime (IonoRandomWalkModel_init 0) (SatID 3) 7199))
        - of_int 1 * sampling
            (IonoRandomWalkModel_setPreviousTime (IonoRandomWalkModel_init 0) (SatID 3) 7199)\<bar>
       \<le> tolerance (IonoRandomWalkModel_setPreviousTime (IonoRandomWalkModel_init 0) (SatID 3) 7199)
   \<and> fst (IonoRandomWalkModel_getQ
        (IonoRandomWalkModel_Prepare 90000000000
           (IonoRandomWalkModel_setPreviousTime (IonoRandomWalkModel_init 0) (SatID 3) 7199)
           7200 (SourceID 1) (SatID 3) Map.empty))
     = 90000000000"
proof -
  let ?m = "IonoRandomWalkModel_setPreviousTime (IonoRandomWalkModel_init 0) (SatID 3) 7199"
  have enabled: "insertInterrupt ?m"
    by (simp add: IonoRandomWalkModel_setPreviousTime_def IonoRandomWalkModel_init_def)
  have due: "\<bar>(7200 - initialTime ?m) - of_int 1 * sampling ?m\<bar> \<le> tolerance ?m"
    by (simp add: IonoRandomWalkModel_setPreviousTime_def IonoRandomWalkModel_init_def
        BEGINNING_OF_TIME_def)
  from iono_forced_discontinuity [OF enabled due, of 90000000000 "SourceID 1" "SatID 3" Map.empty 0]
  have "fst (IonoRandomWalkModel_getQ
        (IonoRandomWalkModel_Prepare 90000000000 ?m 7200 (SourceID 1) (SatID 3) Map.empty))
     = 90000000000"
    by blast
  with enabled due show ?thesis
    by blast
qed

text \<open>
  C3. A phase-ambiguity model is constructed in arc mode. For one (source, satellite)
  key, five successive \<^verbatim>\<open>Prepare\<close> calls whose data carry the arc values 1, 1, 1, 2, 2
  leave the cycle-slip flags false, false, false, true, false, and the cached arc value
  after each call is the value just fed. In general, in arc mode a call reports a slip
  exactly when a cached value exists and differs from the new one, and caches the new
  value.
\<close>

theorem arc_mode_slip_sequence:
  "arcHistory (PhaseAmbiguityModel_init sigma) source sat
     [(e1, d1(satArc \<mapsto> 1)), (e2, d2(satArc \<mapsto> 1)), (e3, d3(satArc \<mapsto> 1)),
      (e4, d4(satArc \<mapsto> 2)), (e5, d5(satArc \<mapsto> 2))]
   = [(False, Some 1), (False, Some 1), (False, Some 1), (True, Some 2), (False, Some 2)]
   \<and> watchSatArc (PhaseAmbiguityModel_init sigma)
   \<and> fst (PhaseAmbiguityModel_getCS
        (PhaseAmbiguityModel_Prepare (PhaseAmbiguityModel_setWatchSatArc m True) epoch source sat
           (tData(satArc \<mapsto> arc))))
      = (case cachedArc m source sat of None \<Rightarrow> False | Some old \<Rightarrow> arc \<noteq> old)
   \<and> cachedArc
        (PhaseAmbiguityModel_Prepare (PhaseAmbiguityModel_setWatchSatArc m True) epoch source sat
           (tData(satArc \<mapsto> arc))) source sat
      = Some arc"
proof -
  have init: "watchSatArc (PhaseAmbiguityModel_init sigma)"
    "cachedArc (PhaseAmbiguityModel_init sigma) source sat = None"
    by (simp_all add: PhaseAmbiguityModel_init_def cachedArc_def)
  have run: "arcHistory (PhaseAmbiguityModel_init sigma) source sat
     [(e1, d1(satArc \<mapsto> 1)), (e2, d2(satArc \<mapsto> 1)), (e3, d3(satArc \<mapsto> 1)),
      (e4, d4(satArc \<mapsto> 2)), (e5, d5(satArc \<mapsto> 2))]
   = [(False, Some 1), (False, Some 1), (False, Some 1), (True, Some 2), (False, Some 2)]"
    using init
    by (simp add: Let_def Prepare_arc_step PhaseAmbiguityModel_getCS_def cachedArc_def storeArc_def)
  show ?thesis
    using init(1) run
    by (simp add: Prepare_arc_mode PhaseAmbiguityModel_getCS_def cachedArc_def storeArc_def)
qed

text \<open>
  C4. Right after \<^verbatim>\<open>setCS(true)\<close>, \<^verbatim>\<open>getPhi\<close> returns 0 and \<^verbatim>\<open>getQ\<close> returns the
  configured variance (the square of the sigma given to the constructor or to
  \<^verbatim>\<open>setSigma\<close>); right after \<^verbatim>\<open>setCS(false)\<close>, \<^verbatim>\<open>getPhi\<close> returns 1 and \<^verbatim>\<open>getQ\<close>
  returns 0.
\<close>

theorem setCS_then_read:
  "fst (PhaseAmbiguityModel_getPhi (PhaseAmbiguityModel_setCS m True)) = 0
   \<and> fst (PhaseAmbiguityModel_getQ (PhaseAmbiguityModel_setCS m True)) = pa_variance m
   \<and> fst (PhaseAmbiguityModel_getPhi (PhaseAmbiguityModel_setCS m False)) = 1
   \<and> fst (PhaseAmbiguityModel_getQ (PhaseAmbiguityModel_setCS m False)) = 0
   \<and> fst (PhaseAmbiguityModel_getQ
        (PhaseAmbiguityModel_setCS (PhaseAmbiguityModel_init sigma) True)) = sigma * sigma
   \<and> fst (PhaseAmbiguityModel_getQ
        (PhaseAmbiguityModel_setCS (PhaseAmbiguityModel_setSigma m sigma) True)) = sigma * sigma"
  by (simp add: PhaseAmbiguityModel_getPhi_def PhaseAmbiguityModel_getQ_def
      PhaseAmbiguityModel_setCS_def PhaseAmbiguityModel_init_def PhaseAmbiguityModel_setSigma_def)

text \<open>
  C5. In each of the seven per-entity variants, the per-entity overload of \<^verbatim>\<open>setQprime\<close>
  assigns the one shared \<^verbatim>\<open>qprime\<close> member and nothing else, whatever key it is given;
  the Q that a later \<^verbatim>\<open>Prepare\<close> computes for any entity is the new value times the
  elapsed time of that entity (clamped at 0; for the ionospheric model, when the
  forced-discontinuity branch is not taken).
\<close>

theorem setQprime_entity_is_shared:
  "TropoRandomWalkModel_setQprime_source tropo k1 v = tropo\<lparr> tropo_qprime := v \<rparr>
   \<and> fst (TropoRandomWalkModel_getQ (TropoRandomWalkModel_Prepare
            (TropoRandomWalkModel_setQprime_source tropo k1 v) epoch source sat tData))
       = max 0 (v * elapsedFor (tmData tropo source) epoch)
   \<and> TropoGradRandomWalkModel_setQprime_source grad k2 v = grad\<lparr> grad_qprime := v \<rparr>
   \<and> fst (TropoGradRandomWalkModel_getQ (TropoGradRandomWalkModel_Prepare
            (TropoGradRandomWalkModel_setQprime_source grad k2 v) epoch source sat tData))
       = max 0 (v * elapsedFor (gmData grad source) epoch)
   \<and> IonoRandomWalkModel_setQprime_sat iono k3 v = iono\<lparr> iono_qprime := v \<rparr>
   \<and> fst (IonoRandomWalkModel_getQ (IonoRandomWalkModel_Prepare interruptQ
            (IonoRandomWalkModel_setQprime_sat iono k3 v) epoch source sat tData))
       = (if insertInterrupt iono \<and> interruptDue iono epoch then interruptQ
          else max 0 (v * elapsedFor (imData iono sat) epoch))
   \<and> RecBiasRandomWalkModel_setQprime_source recb k4 v = recb\<lparr> recb_qprime := v \<rparr>
   \<and> fst (RecBiasRandomWalkModel_getQ (RecBiasRandomWalkModel_Prepare
            (RecBiasRandomWalkModel_setQprime_source recb k4 v) epoch source sat tData))
       = max 0 (v * elapsedFor (rbData recb source) epoch)
   \<and> SatBiasRandomWalkModel_setQprime_sat satb k5 v = satb\<lparr> satb_qprime := v \<rparr>
   \<and> fst (SatBiasRandomWalkModel_getQ (SatBiasRandomWalkModel_Prepare
            (SatBiasRandomWalkModel_setQprime_sat satb k5 v) epoch source sat tData))
       = max 0 (v * elapsedFor (sbData satb sat) epoch)
   \<and> ISBRandomWalkModel_setQprime_source isb k6 v = isb\<lparr> isb_qprime := v \<rparr>
   \<and> fst (ISBRandomWalkModel_getQ (ISBRandomWalkModel_Prepare
            (ISBRandomWalkModel_setQprime_source isb k6 v) epoch source sat tData))
       = max 0 (v * elapsedFor (ISBmData isb source) epoch)
   \<and> IFCBRandomWalkModel_setQprime_source_sat ifcb k7 k8 v = ifcb\<lparr> ifcb_qprime := v \<rparr>
   \<and> fst (IFCBRandomWalkModel_getQ (IFCBRandomWalkModel_Prepare
            (IFCBRandomWalkModel_setQprime_source_sat ifcb k7 k8 v) epoch source sat tData))
       = max 0 (v * elapsedFor (storedFor (IFCBmData ifcb) source sat) epoch)"
  by (simp add: Prepare_variance getQ_defs
      TropoRandomWalkModel_setQprime_source_def TropoGradRandomWalkModel_setQprime_source_def
      IonoRandomWalkModel_setQprime_sat_def RecBiasRandomWalkModel_setQprime_source_def
      SatBiasRandomWalkModel_setQprime_sat_def ISBRandomWalkModel_setQprime_source_def
      IFCBRandomWalkModel_setQprime_source_sat_def interruptDue_def)

text \<open>
  C6. A white-noise model whose sigma was set to \<open>s\<close>, by the constructor or by
  \<^verbatim>\<open>setSigma\<close>, returns \<open>s * s\<close> from \<^verbatim>\<open>getQ\<close> and 0 from \<^verbatim>\<open>getPhi\<close>, whatever
  \<^verbatim>\<open>Prepare\<close> calls were made since.
\<close>

theorem WhiteNoiseModel_sigma_history:
  "fst (WhiteNoiseModel_getQ (WhiteNoiseModel_Prepares (WhiteNoiseModel_init s) calls)) = s * s
   \<and> fst (WhiteNoiseModel_getPhi (WhiteNoiseModel_Prepares (WhiteNoiseModel_init s) calls)) = 0
   \<and> fst (WhiteNoiseModel_getQ (WhiteNoiseModel_Prepares (WhiteNoiseModel_setSigma m s) calls)) = s * s
   \<and> fst (WhiteNoiseModel_getPhi (WhiteNoiseModel_Prepares (WhiteNoiseModel_setSigma m s) calls)) = 0"
  by (simp add: WhiteNoiseModel_Prepares_id WhiteNoiseModel_getQ_def WhiteNoiseModel_getPhi_def
      WhiteNoiseModel_init_def WhiteNoiseModel_setSigma_def)

text \<open>
  C7. The default constructors of the seven per-entity variants set \<^verbatim>\<open>qprime\<close> to
  5.0e-8 (Tropo), 5.0e-10 (TropoGrad), 1.0e-3 (Iono), 1.0e-4 (RecBias), 3.0e-6 (SatBias),
  9.0e-4 (ISB) and 1.0e-4 (IFCB), and start with an empty registry keyed by station,
  station, satellite, station, satellite, station and (station, satellite).
\<close>

theorem default_qprime_table:
  "tropo_qprime (TropoRandomWalkModel_init v0) = 5 / 10 ^ 8
   \<and> tmData (TropoRandomWalkModel_init v0) = (Map.empty :: SourceID \<rightharpoonup> modelData)
   \<and> grad_qprime (TropoGradRandomWalkModel_init v0) = 5 / 10 ^ 10
   \<and> gmData (TropoGradRandomWalkModel_init v0) = (Map.empty :: SourceID \<rightharpoonup> modelData)
   \<and> iono_qprime (IonoRandomWalkModel_init v0) = 1 / 10 ^ 3
   \<and> imData (IonoRandomWalkModel_init v0) = (Map.empty :: SatID \<rightharpoonup> modelData)
   \<and> recb_qprime (RecBiasRandomWalkModel_init v0) = 1 / 10 ^ 4
   \<and> rbData (RecBiasRandomWalkModel_init v0) = (Map.empty :: SourceID \<rightharpoonup> modelData)
   \<and> satb_qprime (SatBiasRandomWalkModel_init v0) = 3 / 10 ^ 6
   \<and> sbData (SatBiasRandomWalkModel_init v0) = (Map.empty :: SatID \<rightharpoonup> modelData)
   \<and> isb_qprime (ISBRandomWalkModel_init v0) = 9 / 10 ^ 4
   \<and> ISBmData (ISBRandomWalkModel_init v0) = (Map.empty :: SourceID \<rightharpoonup> modelData)
   \<and> ifcb_qprime (IFCBRandomWalkModel_init v0) = 1 / 10 ^ 4
   \<and> IFCBmData (IFCBRandomWalkModel_init v0)
       = (Map.empty :: SourceID \<rightharpoonup> (SatID \<rightharpoonup> modelData))"
  by (simp add: TropoRandomWalkModel_init_def TropoGradRandomWalkModel_init_def
      IonoRandomWalkModel_init_def RecBiasRandomWalkModel_init_def SatBiasRandomWalkModel_init_def
      ISBRandomWalkModel_init_def IFCBRandomWalkModel_init_def)

text \<open>
  C8, as amended. Given a forced-discontinuity value that is not negative, after one or
  more \<^verbatim>\<open>Prepare\<close> calls \<^verbatim>\<open>getQ\<close> does not return a negative value: for the constant
  model and for each of the seven per-entity variants with no condition on the object
  (their elapsed-time Q is clamped at 0); for a white-noise or phase-ambiguity model whose
  stored variance is not negative before the calls, as it is after the constructor and
  after \<^verbatim>\<open>setSigma\<close>, which store a square; for \<^verbatim>\<open>RandomWalkModel\<close> when the stored
  \<^verbatim>\<open>qprime\<close> is not negative and the epochs of the calls do not decrease, starting
  from the stored \<^verbatim>\<open>currentTime\<close>. The condition on the stored members holds again
  after the calls.
\<close>

theorem variance_nonnegative:
  assumes "0 \<le> interruptQ" and "storedNonNegative m"
    and "epochsInOrder m (map fst calls)" and "calls \<noteq> []"
  shows "0 \<le> fst (getQ (Prepares interruptQ m calls))
       \<and> storedNonNegative (Prepares interruptQ m calls)
       \<and> storedNonNegative (WhiteNoise (WhiteNoiseModel_init s))
       \<and> storedNonNegative (WhiteNoise (WhiteNoiseModel_setSigma w s))
       \<and> storedNonNegative (PhaseAmbiguity (PhaseAmbiguityModel_init s))
       \<and> storedNonNegative (PhaseAmbiguity (PhaseAmbiguityModel_setSigma p s))"
  using Prepares_nonneg [OF assms]
  by (simp add: WhiteNoiseModel_init_def WhiteNoiseModel_setSigma_def PhaseAmbiguityModel_init_def
      PhaseAmbiguityModel_setSigma_def)

text \<open>
  Runs of the amended C8: a \<^verbatim>\<open>RandomWalkModel\<close> constructed with \<open>qprime = 1\<close> at
  the epoch 100 and prepared at 120 and 150 returns 30; a tropospheric model with a
  negative uninitialised variance and a negative \<^verbatim>\<open>qprime\<close>, prepared at 10 and 20,
  returns the clamped value 0; a default ionospheric model prepared at 7100 and on its
  schedule at 7200 returns the forced value.
\<close>

theorem variance_nonnegative_witness:
  "(0::real) \<le> 90000000000
   \<and> storedNonNegative (RandomWalk (RandomWalkModel_init 1 100 0))
   \<and> epochsInOrder (RandomWalk (RandomWalkModel_init 1 100 0)) [120, 150]
   \<and> 0 \<le> fst (getQ (Prepares 90000000000 (RandomWalk (RandomWalkModel_init 1 100 0))
            [(120, SourceID 1, SatID 1, Map.empty), (150, SourceID 1, SatID 1, Map.empty)]))
   \<and> fst (getQ (Prepares 90000000000 (RandomWalk (RandomWalkModel_init 1 100 0))
            [(120, SourceID 1, SatID 1, Map.empty), (150, SourceID 1, SatID 1, Map.empty)])) = 30
   \<and> 0 \<le> fst (getQ (Prepares 90000000000
            (TropoRandomWalk (TropoRandomWalkModel_setQprime_source
               (TropoRandomWalkModel_init (- 5)) (SourceID 1) (- 1)))
            [(10, SourceID 1, SatID 1, Map.empty), (20, SourceID 1, SatID 1, Map.empty)]))
   \<and> fst (getQ (Prepares 90000000000
            (TropoRandomWalk (TropoRandomWalkModel_setQprime_source
               (TropoRandomWalkModel_init (- 5)) (SourceID 1) (- 1)))
            [(10, SourceID 1, SatID 1, Map.empty), (20, SourceID 1, SatID 1, Map.empty)])) = 0
   \<and> 0 \<le> fst (getQ (Prepares 90000000000 (IonoRandomWalk (IonoRandomWalkModel_init (- 5)))
            [(7100, SourceID 1, SatID 1, Map.empty), (7200, SourceID 1, SatID 1, Map.empty)]))
   \<and> fst (getQ (Prepares 90000000000 (IonoRandomWalk (IonoRandomWalkModel_init (- 5)))
            [(7100, SourceID 1, SatID 1, Map.empty), (7200, SourceID 1, SatID 1, Map.empty)]))
       = 90000000000"
proof -
  let ?rw = "RandomWalk (RandomWalkModel_init 1 100 0)"
  let ?tropo = "TropoRandomWalk (TropoRandomWalkModel_setQprime_source
               (TropoRandomWalkModel_init (- 5)) (SourceID 1) (- 1))"
  let ?iono = "IonoRandomWalk (IonoRandomWalkModel_init (- 5))"
  let ?rw_calls = "[(120, SourceID 1, SatID 1, Map.empty), (150, SourceID 1, SatID 1, Map.empty)]
                     :: PrepareArgs list"
  let ?tropo_calls = "[(10, SourceID 1, SatID 1, Map.empty), (20, SourceID 1, SatID 1, Map.empty)]
                     :: PrepareArgs list"
  let ?iono_calls = "[(7100, SourceID 1, SatID 1, Map.empty), (7200, SourceID 1, SatID 1, Map.empty)]
                     :: PrepareArgs list"
  have forced: "(0::real) \<le> 90000000000"
    by simp
  have rw_stored: "storedNonNegative ?rw"
    by (simp add: RandomWalkModel_init_def)
  have rw_order: "epochsInOrder ?rw [120, 150]"
    by (simp add: RandomWalkModel_init_def)
  have rw_order': "epochsInOrder ?rw (map fst ?rw_calls)"
    using rw_order by simp
  have rw_q: "0 \<le> fst (getQ (Prepares 90000000000 ?rw ?rw_calls))"
    using variance_nonnegative [OF forced rw_stored rw_order'] by blast
  have rw_value: "fst (getQ (Prepares 90000000000 ?rw ?rw_calls)) = 30"
    by (simp add: RandomWalkModel_getQ_def RandomWalkModel_Prepare_def
        RandomWalkModel_setCurrentTime_def RandomWalkModel_setPreviousTime_def
        RandomWalkModel_init_def)
  have tropo_q: "0 \<le> fst (getQ (Prepares 90000000000 ?tropo ?tropo_calls))"
    using variance_nonnegative [OF forced, of ?tropo ?tropo_calls] by simp
  have tropo_value: "fst (getQ (Prepares 90000000000 ?tropo ?tropo_calls)) = 0"
    by (simp add: TropoRandomWalkModel_getQ_def TropoRandomWalkModel_two_Prepares
        TropoRandomWalkModel_setQprime_source_def BEGINNING_OF_TIME_def)
  have iono_q: "0 \<le> fst (getQ (Prepares 90000000000 ?iono ?iono_calls))"
    using variance_nonnegative [OF forced, of ?iono ?iono_calls] by simp
  have iono_value: "fst (getQ (Prepares 90000000000 ?iono ?iono_calls)) = 90000000000"
    by (simp add: IonoRandomWalkModel_Prepare_variance IonoRandomWalkModel_getQ_def
        IonoRandomWalkModel_Prepare_def IonoRandomWalkModel_computeQ_def
        IonoRandomWalkModel_setCurrentTime_def elapsedVariance_def at_or_new_def modelData_init_def
        interruptDue_def IonoRandomWalkModel_init_def BEGINNING_OF_TIME_def round_def Let_def)
  from forced rw_stored rw_order rw_q rw_value tropo_q tropo_value iono_q iono_value
  show ?thesis
    by blast
qed

text \<open>
  C8 as stated fails on \<^verbatim>\<open>RandomWalkModel\<close>: \<^verbatim>\<open>setQprime\<close> accepts a negative spectral
  density, and two \<^verbatim>\<open>Prepare\<close> calls at the epochs 10 and 20 then give a negative Q.
\<close>

theorem variance_nonnegative_counterexample:
  "fst (getQ (Prepare 0
        (Prepare 0 (RandomWalk (RandomWalkModel_setQprime RandomWalkModel_default (- 1)))
           10 (SourceID 1) (SatID 1) Map.empty)
        20 (SourceID 1) (SatID 1) Map.empty)) < 0"
  by (simp add: RandomWalkModel_getQ_def RandomWalkModel_Prepare_def RandomWalkModel_setCurrentTime_def
      RandomWalkModel_setPreviousTime_def RandomWalkModel_setQprime_def RandomWalkModel_default_def)

text \<open>
  C9. For every model variant, in any state, any sequence of \<^verbatim>\<open>getPhi\<close> and \<^verbatim>\<open>getQ\<close>
  calls with no \<^verbatim>\<open>Prepare\<close> in between returns at each call the value that the first
  call of that method returns, and leaves the object as it was.
\<close>

theorem reads_idempotent:
  "readMany m rs = (map (\<lambda>r. fst (readOnce m r)) rs, m)"
proof (induction rs)
  case Nil
  show ?case by simp
next
  case (Cons r rs)
  obtain v m' where vm: "readOnce m r = (v, m')"
    by (cases "readOnce m r")
  with readOnce_state [of m r] have "m' = m"
    by simp
  with vm Cons show ?case
    by simp
qed

text \<open>
  C10. The three-argument constructor of \<^verbatim>\<open>RandomWalkModel\<close> ignores its third
  argument: the \<^verbatim>\<open>currentTime\<close> member of the new object is \<open>prevTime\<close>, and two
  constructions that differ in the third argument only give the same object.
\<close>

theorem RandomWalkModel_init_currentTime:
  "rw_currentTime (RandomWalkModel_init qp prevTime currTime) = prevTime
   \<and> RandomWalkModel_init qp prevTime currTime = RandomWalkModel_init qp prevTime currTime'"
  by (simp add: RandomWalkModel_init_def)

end
